theory Spec2Isabelle
  imports Complex_Main "HOL-Library.Sublist"
begin

section \<open>The emission estimation engine of greenfork-backend\<close>

text \<open>
  A shallow embedding of the carbon emission calculator in
  \<^verbatim>\<open>src/services/emissionService.js\<close> (the module the routes load as
  \<^verbatim>\<open>totalEmissions.js\<close>): the static tables, the recipe resolver, the category
  classifier, the travel distance resolver, the packaging model and the aggregator
  \<^verbatim>\<open>calculateFoodEmission\<close>.

  Conventions of the embedding.
  \<^item> A JavaScript number is an exact rational or \<open>NaN\<close>. The rounding error of IEEE
    doubles and the infinities are not modelled, so every numeric statement below is a
    statement about exact arithmetic.
  \<^item> A string is a list of bytes; the case mapping, the white space and the regular
    expression classes are those of ASCII.
  \<^item> An object literal is an association list in insertion order. Reading a property
    goes through \<open>js_get\<close>, which also sees the names every object inherits from
    \<^verbatim>\<open>Object.prototype\<close>.
  \<^item> The three remote services (recipe search, geocoder, router) are parameters: a
    function from the request to the outcome of the call, thrown errors included.
\<close>

subsection \<open>Numbers\<close>

datatype jsnum = Num rat | NaN

fun js_mul :: "jsnum \<Rightarrow> jsnum \<Rightarrow> jsnum" where
  "js_mul (Num a) (Num b) = Num (a * b)"
| "js_mul _ _ = NaN"

fun js_add :: "jsnum \<Rightarrow> jsnum \<Rightarrow> jsnum" where
  "js_add (Num a) (Num b) = Num (a + b)"
| "js_add _ _ = NaN"

text \<open>Every divisor in the program is the constant 1000 or a total already tested to be
  positive; a zero divisor (an infinity in JavaScript) never arises.\<close>

fun js_div :: "jsnum \<Rightarrow> jsnum \<Rightarrow> jsnum" where
  "js_div (Num a) (Num b) = (if b = 0 then NaN else Num (a / b))"
| "js_div _ _ = NaN"

text \<open>\<^verbatim>\<open>x > 0\<close> and the truth value of a number: \<open>NaN\<close> and 0 are falsy.\<close>

fun js_gt0 :: "jsnum \<Rightarrow> bool" where
  "js_gt0 (Num a) = (0 < a)"
| "js_gt0 NaN = False"

fun truthy_num :: "jsnum \<Rightarrow> bool" where
  "truthy_num (Num a) = (a \<noteq> 0)"
| "truthy_num NaN = False"

subsection \<open>Property reads\<close>

text \<open>
  The value of \<^verbatim>\<open>obj[key]\<close> for an object literal: its own property, or a built-in
  function or object inherited from \<^verbatim>\<open>Object.prototype\<close>, or \<^verbatim>\<open>undefined\<close>.
\<close>

datatype 'a js = Val 'a | Builtin | Undefined

definition object_prototype_keys :: "string list" where
  "object_prototype_keys =
     [''constructor'', ''__proto__'', ''hasOwnProperty'', ''isPrototypeOf'',
      ''propertyIsEnumerable'', ''toLocaleString'', ''toString'', ''valueOf'',
      ''__defineGetter__'', ''__defineSetter__'', ''__lookupGetter__'',
      ''__lookupSetter__'']"

definition js_get :: "(string \<times> 'a) list \<Rightarrow> string \<Rightarrow> 'a js" where
  "js_get obj k =
     (case map_of obj k of
        Some v \<Rightarrow> Val v
      | None \<Rightarrow> if k \<in> set object_prototype_keys then Builtin else Undefined)"

text \<open>Truth value of a property holding a number, and of one holding an object.\<close>

fun truthy :: "jsnum js \<Rightarrow> bool" where
  "truthy (Val n) = truthy_num n"
| "truthy Builtin = True"
| "truthy Undefined = False"

fun truthy_obj :: "'a js \<Rightarrow> bool" where
  "truthy_obj (Val _) = True"
| "truthy_obj Builtin = True"
| "truthy_obj Undefined = False"

text \<open>\<^verbatim>\<open>a || b\<close> on property values.\<close>

definition js_or :: "jsnum js \<Rightarrow> jsnum js \<Rightarrow> jsnum js" where
  "js_or a b = (if truthy a then a else b)"

text \<open>The number a value stands for as an operand of \<^verbatim>\<open>*\<close>: \<^verbatim>\<open>undefined\<close>, a
  built-in function and \<^verbatim>\<open>Object.prototype\<close> all convert to \<open>NaN\<close>.\<close>

fun to_number :: "jsnum js \<Rightarrow> jsnum" where
  "to_number (Val n) = n"
| "to_number Builtin = NaN"
| "to_number Undefined = NaN"

text \<open>\<^verbatim>\<open>obj[key] = value\<close>: an existing key keeps its place, a new key goes last.\<close>

fun obj_set :: "(string \<times> 'a) list \<Rightarrow> string \<Rightarrow> 'a \<Rightarrow> (string \<times> 'a) list" where
  "obj_set [] k v = [(k, v)]"
| "obj_set ((k', v') # ps) k v =
     (if k' = k then (k, v) # ps else (k', v') # obj_set ps k v)"

subsection \<open>Strings\<close>

definition toLowerCase_char :: "char \<Rightarrow> char" where
  "toLowerCase_char c =
     (case map_of (zip ''ABCDEFGHIJKLMNOPQRSTUVWXYZ'' ''abcdefghijklmnopqrstuvwxyz'') c of
        Some d \<Rightarrow> d
      | None \<Rightarrow> c)"

definition toLowerCase :: "string \<Rightarrow> string" where
  "toLowerCase s = map toLowerCase_char s"

text \<open>Line terminators and white space, as \<^verbatim>\<open>trim\<close> and the regular expression dot see
  them.\<close>

definition is_line_terminator :: "char \<Rightarrow> bool" where
  "is_line_terminator c = (c \<in> set [CHR 0x0A, CHR 0x0D])"

definition is_space :: "char \<Rightarrow> bool" where
  "is_space c = (c \<in> set [CHR 0x09, CHR 0x0A, CHR 0x0B, CHR 0x0C, CHR 0x0D, CHR 0x20])"

definition trim :: "string \<Rightarrow> string" where
  "trim s = rev (dropWhile is_space (rev (dropWhile is_space s)))"

text \<open>\<^verbatim>\<open>s.split(",")\<close>: always at least one piece.\<close>

fun split_comma :: "string \<Rightarrow> string list" where
  "split_comma [] = [[]]"
| "split_comma (c # cs) =
     (if c = CHR '','' then [] # split_comma cs
      else (case split_comma cs of
              [] \<Rightarrow> [[c]]
            | p # ps \<Rightarrow> (c # p) # ps))"

text \<open>\<^verbatim>\<open>s.includes(sub)\<close>.\<close>

fun str_includes :: "string \<Rightarrow> string \<Rightarrow> bool" where
  "str_includes [] sub = (sub = [])"
| "str_includes (c # cs) sub = (prefix sub (c # cs) \<or> str_includes cs sub)"

definition is_digit :: "char \<Rightarrow> bool" where
  "is_digit c = (c \<in> set ''0123456789'')"

definition digit_value :: "char \<Rightarrow> nat" where
  "digit_value c =
     (case map_of (zip ''0123456789'' [0 ..< 10]) c of Some d \<Rightarrow> d | None \<Rightarrow> 0)"

text \<open>\<^verbatim>\<open>parseInt\<close> of a string of decimal digits.\<close>

definition parseInt :: "string \<Rightarrow> nat" where
  "parseInt ds = foldl (\<lambda>n c. 10 * n + digit_value c) 0 ds"

text \<open>
  The regular expression \<^verbatim>\<open>/(\d+) x (.+)/\<close>, tried at the head of a string. The digits
  are followed by a space, so the greedy \<^verbatim>\<open>\d+\<close> can only match the whole run of
  digits; \<^verbatim>\<open>.+\<close> takes everything up to the first line terminator and needs one
  character. The result is the pair of the two groups.
\<close>

definition regex_at :: "string \<Rightarrow> (string \<times> string) option" where
  "regex_at s =
     (let ds = takeWhile is_digit s;
          r = dropWhile is_digit s;
          g = takeWhile (\<lambda>c. \<not> is_line_terminator c) (drop 3 r)
      in if ds \<noteq> [] \<and> take 3 r = '' x '' \<and> g \<noteq> [] then Some (ds, g) else None)"

text \<open>\<^verbatim>\<open>item.match(...)\<close>: the pattern is not anchored, the leftmost match wins.\<close>

fun regex_match :: "string \<Rightarrow> (string \<times> string) option" where
  "regex_match [] = regex_at []"
| "regex_match (c # cs) =
     (case regex_at (c # cs) of
        Some m \<Rightarrow> Some m
      | None \<Rightarrow> regex_match cs)"

subsection \<open>Formatting and reading back numbers\<close>

definition digit_char :: "nat \<Rightarrow> char" where
  "digit_char d = ''0123456789'' ! d"

fun digits_of :: "nat \<Rightarrow> string" where
  "digits_of n =
     (if n < 10 then [digit_char n] else digits_of (n div 10) @ [digit_char (n mod 10)])"

declare digits_of.simps [simp del]

text \<open>
  \<^verbatim>\<open>x.toFixed(f)\<close>: the integer \<open>n\<close> with \<open>n / 10^f\<close> nearest to \<open>|x|\<close>, the larger one
  at a tie, printed with \<open>f\<close> decimals after the sign. (From \<open>10^21\<close> on JavaScript
  prints an exponent; the model prints all the digits.)
\<close>

definition fixed_units :: "nat \<Rightarrow> rat \<Rightarrow> nat" where
  "fixed_units f x = nat \<lfloor>\<bar>x\<bar> * 10 ^ f + 1 / 2\<rfloor>"

definition toFixed :: "nat \<Rightarrow> jsnum \<Rightarrow> string" where
  "toFixed f x =
     (case x of
        NaN \<Rightarrow> ''NaN''
      | Num r \<Rightarrow>
          (let s = (if r < 0 then ''-'' else '''');
               m = digits_of (fixed_units f r);
               z = (if length m \<le> f then replicate (f + 1 - length m) (CHR ''0'') @ m
                    else m);
               k = length z
           in if f = 0 then s @ m
              else s @ take (k - f) z @ ''.'' @ drop (k - f) z))"

text \<open>
  \<^verbatim>\<open>parseFloat\<close> on the strings \<^verbatim>\<open>toFixed\<close> produces: an optional minus sign, digits,
  an optional point and more digits; anything else read as \<open>NaN\<close>. (Exponents, a plus
  sign, leading white space and \<^verbatim>\<open>Infinity\<close> are not read.)
\<close>

definition parseFloat :: "string \<Rightarrow> jsnum" where
  "parseFloat s =
     (let neg = (take 1 s = ''-'');
          body = (if neg then drop 1 s else s);
          ip = takeWhile is_digit body;
          rest = dropWhile is_digit body;
          fp = (if take 1 rest = ''.'' then takeWhile is_digit (drop 1 rest) else []);
          v = rat_of_nat (parseInt ip) + rat_of_nat (parseInt fp) / 10 ^ length fp
      in if ip = [] \<and> fp = [] then NaN else Num (if neg then - v else v))"

subsection \<open>The static tables\<close>

text \<open>A table of numbers, written with the figures of the source.\<close>

definition nums :: "(string \<times> rat) list \<Rightarrow> (string \<times> jsnum) list" where
  "nums kvs = map (\<lambda>(k, v). (k, Num v)) kvs"

text \<open>\<^verbatim>\<open>FOOD_EMISSIONS_DB\<close>: kg CO2e per kg of food.\<close>

definition FOOD_EMISSIONS_DB :: "(string \<times> jsnum) list" where
  "FOOD_EMISSIONS_DB = nums
     [(''beef'', 60.0), (''lamb'', 24.0), (''mutton'', 24.0), (''pork'', 7.0),
      (''bacon'', 7.2), (''ham'', 6.8), (''chicken'', 6.0), (''turkey'', 5.5),
      (''duck'', 9.8), (''eggs'', 4.8),
      (''fish'', 5.1), (''salmon'', 6.0), (''tuna'', 6.1), (''shrimp'', 12.0),
      (''prawns'', 12.0),
      (''cheese'', 13.5), (''paneer'', 13.0), (''milk'', 3.2), (''butter'', 12.0),
      (''cream'', 9.0), (''yogurt'', 2.5), (''ghee'', 12.5), (''cream cheese'', 11.8),
      (''lentils'', 0.9), (''tofu'', 2.0), (''beans'', 1.1), (''chickpeas'', 0.9),
      (''soybeans'', 1.0), (''tempeh'', 2.2), (''seitan'', 1.2),
      (''plant-based meat'', 3.5),
      (''wheat'', 1.6), (''rice'', 4.0), (''oats'', 1.4), (''barley'', 1.0),
      (''corn'', 1.1), (''quinoa'', 1.3), (''bread'', 1.7), (''pasta'', 1.5),
      (''flour'', 1.6),
      (''vegetables'', 1.5), (''potatoes'', 0.5), (''tomatoes'', 1.1), (''onions'', 0.5),
      (''garlic'', 0.6), (''bell pepper'', 1.0), (''tomato puree'', 1.8),
      (''carrots'', 0.4), (''broccoli'', 0.6), (''spinach'', 0.5), (''lettuce'', 0.7),
      (''kale'', 0.5), (''cabbage'', 0.4), (''cucumber'', 0.6), (''eggplant'', 0.7),
      (''mushrooms'', 0.6),
      (''fruits'', 1.0), (''apples'', 0.4), (''bananas'', 0.8), (''oranges'', 0.4),
      (''berries'', 1.1), (''grapes'', 1.0), (''mangoes'', 1.2),
      (''oil'', 3.3), (''olive oil'', 5.1), (''coconut oil'', 2.3), (''nuts'', 2.5),
      (''almonds'', 3.5), (''walnuts'', 2.3), (''cashews'', 2.2), (''seeds'', 1.8),
      (''spices'', 1.5), (''sugar'', 1.9), (''salt'', 0.3), (''pepper'', 1.1),
      (''vinegar'', 0.9), (''tomato ketchup'', 2.1), (''mayonnaise'', 4.5),
      (''coffee'', 17.0), (''tea'', 2.0), (''beer'', 1.1), (''wine'', 1.8),
      (''soft drink'', 0.5)]"

text \<open>\<^verbatim>\<open>INGREDIENT_NORMALIZATION\<close>: alias to standard name.\<close>

definition INGREDIENT_NORMALIZATION :: "(string \<times> string) list" where
  "INGREDIENT_NORMALIZATION =
     [(''garbanzo beans'', ''chickpeas''), (''chana'', ''chickpeas''),
      (''chick peas'', ''chickpeas''), (''gram'', ''chickpeas''), (''dahl'', ''lentils''),
      (''dal'', ''lentils''), (''moong'', ''lentils''), (''masoor'', ''lentils''),
      (''gram flour'', ''flour''), (''besan'', ''flour''), (''maida'', ''flour''),
      (''atta'', ''flour''), (''naan'', ''bread''), (''chapati'', ''bread''),
      (''roti'', ''bread''), (''paratha'', ''bread''),
      (''chicken breast'', ''chicken''), (''chicken thigh'', ''chicken''),
      (''lamb chop'', ''lamb''), (''ground beef'', ''beef''), (''minced beef'', ''beef''),
      (''steak'', ''beef''), (''mutton'', ''lamb''), (''egg'', ''eggs''),
      (''capsicum'', ''bell pepper''), (''pepper'', ''bell pepper''),
      (''tomato'', ''tomatoes''), (''onion'', ''onions''), (''potato'', ''potatoes''),
      (''mushroom'', ''mushrooms''), (''eggplant'', ''eggplant''),
      (''aubergine'', ''eggplant''), (''brinjal'', ''eggplant''),
      (''cream cheese'', ''cheese''), (''cheddar'', ''cheese''),
      (''mozzarella'', ''cheese''), (''parmesan'', ''cheese''), (''feta'', ''cheese''),
      (''cottage cheese'', ''paneer''), (''creamer'', ''cream''),
      (''yoghurt'', ''yogurt''), (''curd'', ''yogurt''),
      (''refined oil'', ''oil''), (''cooking oil'', ''oil''), (''vegetable oil'', ''oil''),
      (''canola oil'', ''oil''), (''sunflower oil'', ''oil''), (''margarine'', ''butter''),
      (''ketchup'', ''tomato ketchup''), (''soy sauce'', ''spices''),
      (''hot sauce'', ''spices''), (''chilli sauce'', ''spices''), (''masala'', ''spices''),
      (''garam masala'', ''spices'')]"

text \<open>\<^verbatim>\<open>INGREDIENT_CATEGORY_FALLBACK\<close>, read only through its twelve fixed keys.\<close>

datatype category =
  Meat | Seafood | Dairy | Vegetables | Fruits | Grains | Spices | Pulses | Oil | Nuts
  | Beverages | Processed

fun INGREDIENT_CATEGORY_FALLBACK :: "category \<Rightarrow> rat" where
  "INGREDIENT_CATEGORY_FALLBACK Meat = 30.0"
| "INGREDIENT_CATEGORY_FALLBACK Seafood = 6.0"
| "INGREDIENT_CATEGORY_FALLBACK Dairy = 10.0"
| "INGREDIENT_CATEGORY_FALLBACK Vegetables = 1.0"
| "INGREDIENT_CATEGORY_FALLBACK Fruits = 1.0"
| "INGREDIENT_CATEGORY_FALLBACK Grains = 1.6"
| "INGREDIENT_CATEGORY_FALLBACK Spices = 1.5"
| "INGREDIENT_CATEGORY_FALLBACK Pulses = 0.9"
| "INGREDIENT_CATEGORY_FALLBACK Oil = 3.3"
| "INGREDIENT_CATEGORY_FALLBACK Nuts = 2.5"
| "INGREDIENT_CATEGORY_FALLBACK Beverages = 1.5"
| "INGREDIENT_CATEGORY_FALLBACK Processed = 4.0"

text \<open>\<^verbatim>\<open>PACKAGING_EMISSIONS\<close>: kg CO2e per unit, by material and size.\<close>

definition PACKAGING_EMISSIONS :: "(string \<times> (string \<times> jsnum) list) list" where
  "PACKAGING_EMISSIONS =
     [(''plastic'', nums [(''small'', 0.1), (''medium'', 0.2), (''large'', 0.4)]),
      (''paper'', nums [(''small'', 0.05), (''medium'', 0.1), (''large'', 0.2)]),
      (''aluminum'', nums [(''small'', 0.15), (''medium'', 0.3), (''large'', 0.5)]),
      (''styrofoam'', nums [(''small'', 0.15), (''medium'', 0.25), (''large'', 0.45)]),
      (''glass'', nums [(''small'', 0.3), (''medium'', 0.5), (''large'', 0.8)])]"

definition DEFAULT_PACKAGING_type :: string where
  "DEFAULT_PACKAGING_type = ''plastic''"

definition DEFAULT_PACKAGING_size :: string where
  "DEFAULT_PACKAGING_size = ''medium''"

definition PACKAGING_EMISSION_PER_DISH :: rat where
  "PACKAGING_EMISSION_PER_DISH = 0.2"

text \<open>\<^verbatim>\<open>TRAVEL_EMISSIONS\<close>: kg CO2e per km.\<close>

definition TRAVEL_EMISSIONS :: "(string \<times> jsnum) list" where
  "TRAVEL_EMISSIONS = nums
     [(''motorcycle'', 0.115), (''scooter'', 0.09), (''car'', 0.18),
      (''electric-car'', 0.06), (''van'', 0.23), (''bicycle'', 0.008),
      (''e-bicycle'', 0.01), (''walking'', 0.0)]"

definition DEFAULT_TRANSPORT :: string where
  "DEFAULT_TRANSPORT = ''motorcycle''"

definition TRAVEL_EMISSION_PER_KM :: rat where
  "TRAVEL_EMISSION_PER_KM = 0.105"

text \<open>\<^verbatim>\<open>RECIPE_DB\<close>: grams per standard serving.\<close>

definition RECIPE_DB :: "(string \<times> (string \<times> jsnum) list) list" where
  "RECIPE_DB =
     [(''kadhai paneer'',
         nums [(''paneer'', 100), (''bell pepper'', 50), (''onions'', 50),
               (''tomatoes'', 100), (''oil'', 10), (''spices'', 5)]),
      (''tawa roti'', nums [(''wheat'', 50), (''oil'', 2)]),
      (''dal fry'',
         nums [(''lentils'', 100), (''onions'', 30), (''tomatoes'', 50), (''oil'', 10),
               (''spices'', 5)]),
      (''chicken curry'',
         nums [(''chicken'', 150), (''onions'', 50), (''tomatoes'', 100), (''oil'', 15),
               (''spices'', 8)]),
      (''chole kulche'',
         nums [(''chickpeas'', 150), (''onions'', 30), (''tomatoes'', 50), (''oil'', 10),
               (''flour'', 80), (''butter'', 5), (''spices'', 8)]),
      (''butter chicken'',
         nums [(''chicken'', 200), (''butter'', 30), (''cream'', 50), (''tomatoes'', 100),
               (''onions'', 30), (''spices'', 10)]),
      (''palak paneer'',
         nums [(''paneer'', 100), (''spinach'', 200), (''onions'', 30), (''tomatoes'', 20),
               (''cream'', 20), (''oil'', 10), (''spices'', 5)]),
      (''biryani'',
         nums [(''rice'', 150), (''chicken'', 100), (''onions'', 50), (''oil'', 15),
               (''spices'', 10)]),
      (''naan'', nums [(''flour'', 80), (''yogurt'', 20), (''butter'', 10)]),
      (''samosa'',
         nums [(''flour'', 50), (''potatoes'', 80), (''peas'', 20), (''oil'', 30),
               (''spices'', 5)])]"

subsection \<open>Recipe resolution\<close>

text \<open>
  \<^verbatim>\<open>estimateDishIngredients\<close>: the keyword estimator, with the vegetable curry as its
  last resort.
\<close>

definition estimateDishIngredients :: "string \<Rightarrow> (string \<times> jsnum) list" where
  "estimateDishIngredients dishName =
     (let name = toLowerCase dishName in
      if str_includes name ''chicken'' \<or> str_includes name ''murgh'' then
        nums [(''chicken'', 150), (''onions'', 40), (''tomatoes'', 60), (''oil'', 15),
              (''spices'', 10)]
      else if str_includes name ''paneer'' then
        nums [(''paneer'', 100), (''onions'', 40), (''tomatoes'', 60), (''oil'', 10),
              (''spices'', 8)]
      else if str_includes name ''dal'' \<or> str_includes name ''lentil'' then
        nums [(''lentils'', 100), (''onions'', 30), (''tomatoes'', 40), (''oil'', 10),
              (''spices'', 5)]
      else if str_includes name ''rice'' \<or> str_includes name ''biryani''
              \<or> str_includes name ''pulao'' then
        (let result = nums [(''rice'', 150), (''onions'', 30), (''oil'', 15), (''spices'', 8)]
         in if str_includes name ''chicken'' \<or> str_includes name ''murgh'' then
              obj_set result ''chicken'' (Num 100)
            else if str_includes name ''mutton'' \<or> str_includes name ''lamb'' then
              obj_set result ''lamb'' (Num 100)
            else if str_includes name ''veg'' then
              obj_set result ''vegetables'' (Num 100)
            else result)
      else if str_includes name ''roti'' \<or> str_includes name ''naan''
              \<or> str_includes name ''bread'' then
        nums [(''flour'', 80), (''oil'', 5)]
      else
        nums [(''vegetables'', 150), (''onions'', 40), (''tomatoes'', 50), (''oil'', 10),
              (''spices'', 5)])"

text \<open>
  The recipe service, as \<^verbatim>\<open>fetchIngredientsFromAPI\<close> meets it: the search throws
  or answers malformed data, or finds no recipe, or the ingredient request throws, or
  it lists the ingredients. An ingredient is a name and an amount in grams; reading an
  item that lacks either throws.
\<close>

datatype spoonacular_item = Item string jsnum | BadItem

datatype spoonacular_response =
  SearchError | NoResults | DetailsError | Ingredients "spoonacular_item list"

datatype js_error = RequestFailed | TypeError

text \<open>
  The string a built-in value turns into when used as a property key, for the inherited
  name it was read under.
\<close>

definition builtin_to_string :: "string \<Rightarrow> string" where
  "builtin_to_string k =
     (if k = ''__proto__'' then ''[object Object]''
      else ''function '' @ (if k = ''constructor'' then ''Object'' else k)
             @ ''() { [native code] }'')"

text \<open>\<^verbatim>\<open>INGREDIENT_NORMALIZATION[name] || name\<close>, as the key it is stored under.\<close>

definition normalize :: "string \<Rightarrow> string" where
  "normalize name =
     (case js_get INGREDIENT_NORMALIZATION name of
        Val v \<Rightarrow> (if v \<noteq> [] then v else name)
      | Builtin \<Rightarrow> builtin_to_string name
      | Undefined \<Rightarrow> name)"

text \<open>The loop over the listed ingredients.\<close>

fun collect_ingredients ::
  "(string \<times> jsnum) list \<Rightarrow> spoonacular_item list \<Rightarrow> js_error + (string \<times> jsnum) list"
where
  "collect_ingredients result [] = Inr result"
| "collect_ingredients result (BadItem # items) = Inl TypeError"
| "collect_ingredients result (Item name amount # items) =
     collect_ingredients (obj_set result (normalize (toLowerCase name)) amount) items"

text \<open>The body of the \<^verbatim>\<open>try\<close> block: a thrown error is \<open>Inl\<close>.\<close>

definition fetch_try ::
  "(string \<Rightarrow> spoonacular_response) \<Rightarrow> string \<Rightarrow> js_error + (string \<times> jsnum) list"
where
  "fetch_try api dishName =
     (case api dishName of
        SearchError \<Rightarrow> Inl RequestFailed
      | NoResults \<Rightarrow> Inr (estimateDishIngredients dishName)
      | DetailsError \<Rightarrow> Inl RequestFailed
      | Ingredients items \<Rightarrow> collect_ingredients [] items)"

text \<open>\<^verbatim>\<open>fetchIngredientsFromAPI\<close>: the \<^verbatim>\<open>catch\<close> clause answers with the estimator.\<close>

definition fetchIngredientsFromAPI ::
  "(string \<Rightarrow> spoonacular_response) \<Rightarrow> string \<Rightarrow> (string \<times> jsnum) list"
where
  "fetchIngredientsFromAPI api dishName =
     (case fetch_try api dishName of
        Inr result \<Rightarrow> result
      | Inl err \<Rightarrow> estimateDishIngredients dishName)"

text \<open>
  The resolution step of the aggregator's loop: the recipe table first, the service
  otherwise. A dish name that is an inherited property name reads a built-in value,
  which is truthy and has no entries of its own.
\<close>

definition resolveIngredients ::
  "(string \<Rightarrow> spoonacular_response) \<Rightarrow> string \<Rightarrow> (string \<times> jsnum) list"
where
  "resolveIngredients api dishName =
     (case js_get RECIPE_DB dishName of
        Val recipe \<Rightarrow> recipe
      | Builtin \<Rightarrow> []
      | Undefined \<Rightarrow> fetchIngredientsFromAPI api dishName)"

subsection \<open>Emission factors\<close>

text \<open>\<^verbatim>\<open>estimateEmissionCategory\<close>: the keyword chain of the source, in its order.\<close>

definition estimateEmissionCategory :: "string \<Rightarrow> rat" where
  "estimateEmissionCategory ingredient =
     (let lower = toLowerCase ingredient in
      if str_includes lower ''meat'' \<or> str_includes lower ''beef''
         \<or> str_includes lower ''lamb'' \<or> str_includes lower ''pork''
         \<or> str_includes lower ''veal'' then
        INGREDIENT_CATEGORY_FALLBACK Meat
      else if str_includes lower ''fish'' \<or> str_includes lower ''prawn''
         \<or> str_includes lower ''shrimp'' \<or> str_includes lower ''salmon''
         \<or> str_includes lower ''seafood'' then
        INGREDIENT_CATEGORY_FALLBACK Seafood
      else if str_includes lower ''milk'' \<or> str_includes lower ''cream''
         \<or> str_includes lower ''cheese'' \<or> str_includes lower ''curd''
         \<or> str_includes lower ''yogurt'' \<or> str_includes lower ''butter''
         \<or> str_includes lower ''ghee'' then
        INGREDIENT_CATEGORY_FALLBACK Dairy
      else if str_includes lower ''flour'' \<or> str_includes lower ''bread''
         \<or> str_includes lower ''roti'' \<or> str_includes lower ''naan''
         \<or> str_includes lower ''rice'' \<or> str_includes lower ''cereal''
         \<or> str_includes lower ''grain'' \<or> str_includes lower ''pasta'' then
        INGREDIENT_CATEGORY_FALLBACK Grains
      else if str_includes lower ''chickpeas'' \<or> str_includes lower ''lentils''
         \<or> str_includes lower ''dal'' \<or> str_includes lower ''beans''
         \<or> str_includes lower ''peas'' then
        INGREDIENT_CATEGORY_FALLBACK Pulses
      else if str_includes lower ''oil'' \<or> str_includes lower ''fat''
         \<or> str_includes lower ''ghee'' then
        INGREDIENT_CATEGORY_FALLBACK Oil
      else if str_includes lower ''spice'' \<or> str_includes lower ''masala''
         \<or> str_includes lower ''powder'' \<or> str_includes lower ''sauce''
         \<or> str_includes lower ''paste'' \<or> str_includes lower ''extract'' then
        INGREDIENT_CATEGORY_FALLBACK Spices
      else if str_includes lower ''nut'' \<or> str_includes lower ''almond''
         \<or> str_includes lower ''cashew'' \<or> str_includes lower ''seed'' then
        INGREDIENT_CATEGORY_FALLBACK Nuts
      else if str_includes lower ''drink'' \<or> str_includes lower ''juice''
         \<or> str_includes lower ''tea'' \<or> str_includes lower ''coffee'' then
        INGREDIENT_CATEGORY_FALLBACK Beverages
      else if str_includes lower ''processed'' \<or> str_includes lower ''frozen''
         \<or> str_includes lower ''ready'' \<or> str_includes lower ''instant'' then
        INGREDIENT_CATEGORY_FALLBACK Processed
      else INGREDIENT_CATEGORY_FALLBACK Vegetables)"

text \<open>
  \<^verbatim>\<open>FOOD_EMISSIONS_DB[ingredient] || estimateEmissionCategory(ingredient)\<close>, the
  expression both \<^verbatim>\<open>computeEmissionFromIngredients\<close> and the percentage loop use.
\<close>

definition emissionFactorOf :: "string \<Rightarrow> jsnum js" where
  "emissionFactorOf ingredient =
     js_or (js_get FOOD_EMISSIONS_DB ingredient)
           (Val (Num (estimateEmissionCategory ingredient)))"

text \<open>\<^verbatim>\<open>computeEmissionFromIngredients\<close>: 1.5 for an object without entries.\<close>

definition computeEmissionFromIngredients :: "(string \<times> jsnum) list \<Rightarrow> jsnum" where
  "computeEmissionFromIngredients ingredients =
     (if ingredients = [] then Num 1.5
      else foldl (\<lambda>total (ingredient, grams).
                    js_add total
                      (js_mul (to_number (emissionFactorOf ingredient))
                              (js_div grams (Num 1000.0))))
                 (Num 0) ingredients)"

subsection \<open>Travel distance\<close>

record coords =
  lat :: rat
  lng :: rat

text \<open>The geocoder answers with the features it found, as (lng, lat) pairs, or the call
  or the reading of its answer throws.\<close>

datatype geocode_response = GeocodeError | GeocodeFeatures "(rat \<times> rat) list"

definition getCoordinatesFromAddress ::
  "(string \<Rightarrow> geocode_response) \<Rightarrow> string \<Rightarrow> coords option"
where
  "getCoordinatesFromAddress geocoder address =
     (if address = [] \<or> trim address = [] then None
      else (case geocoder address of
              GeocodeError \<Rightarrow> None
            | GeocodeFeatures [] \<Rightarrow> None
            | GeocodeFeatures (c # cs) \<Rightarrow> Some \<lparr>lat = snd c, lng = fst c\<rparr>))"

text \<open>The router answers with the metres of the first route, or throws.\<close>

datatype route_response = RouteError | RouteMeters jsnum

text \<open>
  The object \<^verbatim>\<open>getTravelDistanceKm\<close> returns and \<^verbatim>\<open>calculateFoodEmission\<close>
  accepts; as an input each field may be absent.
\<close>

record travel_details =
  distance :: "jsnum option"
  transportType :: "string option"
  emissionFactor :: "jsnum js"

text \<open>The object literal all four \<^verbatim>\<open>return\<close> statements build.\<close>

definition travel_result :: "jsnum \<Rightarrow> string \<Rightarrow> travel_details" where
  "travel_result km t =
     \<lparr>distance = Some km, transportType = Some t,
      emissionFactor =
        js_or (js_get TRAVEL_EMISSIONS t) (js_get TRAVEL_EMISSIONS DEFAULT_TRANSPORT)\<rparr>"

text \<open>
  \<^verbatim>\<open>getTravelDistanceKm\<close>. A missing origin is \<open>None\<close> or the empty string; an
  omitted transport type is the default one.
\<close>

definition getTravelDistanceKm ::
  "(string \<Rightarrow> geocode_response) \<Rightarrow> (coords \<Rightarrow> coords \<Rightarrow> string \<Rightarrow> route_response)
   \<Rightarrow> string option \<Rightarrow> coords option \<Rightarrow> string option \<Rightarrow> travel_details"
where
  "getTravelDistanceKm geocoder router originAddress destCoords transportTypeArg =
     (let t = (case transportTypeArg of None \<Rightarrow> DEFAULT_TRANSPORT | Some t' \<Rightarrow> t') in
      case (originAddress, destCoords) of
        (Some address, Some dest) \<Rightarrow>
          if address = [] then travel_result (Num 5) t
          else (case getCoordinatesFromAddress geocoder address of
                  None \<Rightarrow> travel_result (Num 5) t
                | Some originCoords \<Rightarrow>
                    (let profile = (if t = ''bicycle'' \<or> t = ''e-bicycle''
                                    then ''cycling-regular'' else ''driving-car'')
                     in case router originCoords dest profile of
                          RouteError \<Rightarrow> travel_result (Num 5) t
                        | RouteMeters meters \<Rightarrow>
                            travel_result (js_div meters (Num 1000.0)) t))
      | _ \<Rightarrow> travel_result (Num 5) t)"

subsection \<open>Packaging\<close>

text \<open>
  \<^verbatim>\<open>PACKAGING_EMISSIONS[type][size]\<close>. The resolved type is always a property, so the
  outer read is never \<^verbatim>\<open>undefined\<close>; a built-in value has the inherited names and none
  of the size names (its own members, such as \<^verbatim>\<open>length\<close>, are not modelled).
\<close>

fun size_factor :: "(string \<times> jsnum) list js \<Rightarrow> string \<Rightarrow> jsnum js" where
  "size_factor (Val sizes) k = js_get sizes k"
| "size_factor Builtin k = js_get [] k"
| "size_factor Undefined k = Undefined"

definition calculatePackagingEmissions :: "nat \<Rightarrow> string \<Rightarrow> string \<Rightarrow> jsnum" where
  "calculatePackagingEmissions numberOfDishes packagingType packagingSize =
     (let type = (if truthy_obj (js_get PACKAGING_EMISSIONS packagingType)
                  then packagingType else DEFAULT_PACKAGING_type);
          size = (if truthy (size_factor (js_get PACKAGING_EMISSIONS type) packagingSize)
                  then packagingSize else DEFAULT_PACKAGING_size);
          emissionFactor = size_factor (js_get PACKAGING_EMISSIONS type) size;
          additionalEmissions = Num 0.05
      in js_add (js_mul (to_number emissionFactor) (Num (of_nat numberOfDishes)))
                additionalEmissions)"

subsection \<open>The aggregator\<close>

text \<open>
  The travel argument of \<^verbatim>\<open>calculateFoodEmission\<close>: a number, an object, or any other
  value that is neither (a string, a boolean). An omitted argument is the number 0;
  \<^verbatim>\<open>null\<close>, on which the first property read throws, is not an input of the model.
\<close>

datatype travel_input = TNumber jsnum | TObject travel_details | TOther

record dish_detail =
  dish_name :: string
  dish_count :: nat
  dish_emission :: string
  dish_totalEmission :: string
  dish_ingredients :: "(string \<times> jsnum) list"

record ingredient_detail =
  amount :: string
  emission :: string
  percentage :: string

text \<open>The result object, \<^verbatim>\<open>details\<close> flattened; the early return leaves the last two
  fields out.\<close>

record emission_result =
  food :: string
  packaging :: string
  travel :: string
  travelDistance :: string
  result_transportType :: string
  result_total :: string
  details_dishes :: "dish_detail list"
  details_ingredients :: "(string \<times> ingredient_detail) list"
  details_dishCount :: "nat option"
  details_packagingType :: "string option"

text \<open>The variables the loop over the clauses updates.\<close>

record loop_state =
  totalFoodEmission :: jsnum
  totalDishCount :: nat
  allIngredients :: "(string \<times> jsnum) list"
  dishDetails :: "dish_detail list"

text \<open>
  The inner loop that adds a dish's ingredients to \<^verbatim>\<open>allIngredients\<close>. A falsy entry
  (absent, 0 or \<open>NaN\<close>) is overwritten, a truthy one is added to. The keys are those of
  a resolved recipe, which are never inherited names (\<open>resolved_keys_own\<close> below), so
  the read sees own properties only.
\<close>

fun track_ingredients ::
  "nat \<Rightarrow> (string \<times> jsnum) list \<Rightarrow> (string \<times> jsnum) list \<Rightarrow> (string \<times> jsnum) list"
where
  "track_ingredients count all [] = all"
| "track_ingredients count all ((ingredient, grams) # rest) =
     track_ingredients count
       (case map_of all ingredient of
          Some old \<Rightarrow>
            if truthy_num old
            then obj_set all ingredient (js_add old (js_mul grams (Num (of_nat count))))
            else obj_set all ingredient (js_mul grams (Num (of_nat count)))
        | None \<Rightarrow> obj_set all ingredient (js_mul grams (Num (of_nat count))))
       rest"

text \<open>One turn of the loop: a clause the pattern does not match is skipped.\<close>

definition process_item ::
  "(string \<Rightarrow> spoonacular_response) \<Rightarrow> loop_state \<Rightarrow> string \<Rightarrow> loop_state"
where
  "process_item api st item =
     (case regex_match item of
        None \<Rightarrow> st
      | Some (digits, rest) \<Rightarrow>
          (let count = parseInt digits;
               dishName = trim rest;
               ingredients = resolveIngredients api dishName;
               e = computeEmissionFromIngredients ingredients;
               subtotal = js_mul e (Num (of_nat count))
           in \<lparr>totalFoodEmission = js_add (totalFoodEmission st) subtotal,
               totalDishCount = totalDishCount st + count,
               allIngredients = track_ingredients count (allIngredients st) ingredients,
               dishDetails = dishDetails st @
                 [\<lparr>dish_name = dishName, dish_count = count,
                   dish_emission = toFixed 2 e,
                   dish_totalEmission = toFixed 2 subtotal,
                   dish_ingredients = ingredients\<rparr>]\<rparr>))"

text \<open>The array \<^verbatim>\<open>dishes\<close>: the clauses of the dish string.\<close>

definition dishes :: "string \<Rightarrow> string list" where
  "dishes dishString = map trim (split_comma (toLowerCase dishString))"

definition process_dishes ::
  "(string \<Rightarrow> spoonacular_response) \<Rightarrow> string \<Rightarrow> loop_state"
where
  "process_dishes api dishString =
     foldl (process_item api)
       \<lparr>totalFoodEmission = Num 0.0, totalDishCount = 0, allIngredients = [],
        dishDetails = []\<rparr>
       (dishes dishString)"

text \<open>The packaging branch of the aggregator.\<close>

definition packagingEmission :: "nat \<Rightarrow> string \<Rightarrow> jsnum" where
  "packagingEmission dishCount packagingType =
     (if packagingType \<noteq> [] \<and> truthy_obj (js_get PACKAGING_EMISSIONS packagingType)
      then calculatePackagingEmissions dishCount packagingType
             (if dishCount > 2 then ''large'' else ''medium'')
      else js_mul (Num PACKAGING_EMISSION_PER_DISH) (Num (of_nat dishCount)))"

text \<open>
  The travel branch, once for the early return and once for the main path, each giving
  (\<^verbatim>\<open>travelEmission\<close>, \<^verbatim>\<open>travelDistance\<close>, \<^verbatim>\<open>transportType\<close>). The object branch is
  the same in both; the number branch is not.
\<close>

definition travel_of_object :: "travel_details \<Rightarrow> (jsnum \<times> jsnum \<times> string) option" where
  "travel_of_object td =
     (case distance td of
        None \<Rightarrow> None
      | Some d \<Rightarrow>
          if truthy_num d then
            (let t = (case transportType td of
                        None \<Rightarrow> DEFAULT_TRANSPORT
                      | Some t' \<Rightarrow> if t' \<noteq> [] then t' else DEFAULT_TRANSPORT)
             in Some (js_mul d (to_number (js_or (emissionFactor td)
                                              (js_get TRAVEL_EMISSIONS t))),
                      d, t))
          else None)"

definition travel_early :: "travel_input \<Rightarrow> jsnum \<times> jsnum \<times> string" where
  "travel_early travelDetails =
     (case travelDetails of
        TObject td \<Rightarrow>
          (case travel_of_object td of
             Some r \<Rightarrow> r
           | None \<Rightarrow> (Num 0, Num 0, DEFAULT_TRANSPORT))
      | TNumber d \<Rightarrow>
          (js_mul d (to_number (js_get TRAVEL_EMISSIONS DEFAULT_TRANSPORT)), d,
           DEFAULT_TRANSPORT)
      | TOther \<Rightarrow> (Num 0, Num 0, DEFAULT_TRANSPORT))"

definition travel_main :: "travel_input \<Rightarrow> jsnum \<times> jsnum \<times> string" where
  "travel_main travelDetails =
     (case travelDetails of
        TObject td \<Rightarrow>
          (case travel_of_object td of
             Some r \<Rightarrow> r
           | None \<Rightarrow> (Num 0, Num 0, DEFAULT_TRANSPORT))
      | TNumber d \<Rightarrow> (js_mul d (Num TRAVEL_EMISSION_PER_KM), d, DEFAULT_TRANSPORT)
      | TOther \<Rightarrow> (Num 0, Num 0, DEFAULT_TRANSPORT))"

text \<open>
  The two percentage loops. The first keeps the emission of each ingredient as the
  string \<^verbatim>\<open>toFixed(2)\<close> printed and adds the unrounded value to the total; the second
  reads the string back with \<^verbatim>\<open>parseFloat\<close> and divides it by that total.
\<close>

definition ingredient_emissions ::
  "(string \<times> jsnum) list \<Rightarrow> (string \<times> string \<times> string) list \<times> jsnum"
where
  "ingredient_emissions all =
     foldl (\<lambda>(acc, totalIngredientEmission) (ingredient, grams).
              (let kg = js_div grams (Num 1000.0);
                   e = js_mul (to_number (emissionFactorOf ingredient)) kg
               in (obj_set acc ingredient (toFixed 1 grams, toFixed 2 e),
                   js_add totalIngredientEmission e)))
           ([], Num 0) all"

definition add_percentage :: "jsnum \<Rightarrow> string \<times> string \<Rightarrow> ingredient_detail" where
  "add_percentage totalIngredientEmission ae =
     (let e = parseFloat (snd ae)
      in \<lparr>amount = fst ae, emission = snd ae,
          percentage =
            (if js_gt0 totalIngredientEmission
             then toFixed 1 (js_mul (js_div e totalIngredientEmission) (Num 100))
             else ''0.0'')\<rparr>)"

definition ingredient_percentages ::
  "(string \<times> jsnum) list \<Rightarrow> (string \<times> ingredient_detail) list"
where
  "ingredient_percentages all =
     (let (acc, totalIngredientEmission) = ingredient_emissions all
      in map (\<lambda>(ingredient, ae). (ingredient, add_percentage totalIngredientEmission ae))
             acc)"

text \<open>
  \<^verbatim>\<open>calculateFoodEmission\<close>. The dish string is \<open>None\<close> when the caller passes none; an
  omitted packaging type is \<^verbatim>\<open>"plastic"\<close>.
\<close>

definition calculateFoodEmission ::
  "(string \<Rightarrow> spoonacular_response) \<Rightarrow> string option \<Rightarrow> travel_input \<Rightarrow> string
   \<Rightarrow> emission_result"
where
  "calculateFoodEmission api dishString travelDetails packagingType =
     (if dishString = None \<or> dishString = Some [] then
        (let (travelEmission, travelDist, t) = travel_early travelDetails
         in \<lparr>food = ''0.00'', packaging = ''0.00'',
             travel = toFixed 2 travelEmission,
             travelDistance = toFixed 2 travelDist,
             result_transportType = t,
             result_total = toFixed 2 travelEmission,
             details_dishes = [], details_ingredients = [],
             details_dishCount = None, details_packagingType = None\<rparr>)
      else
        (let st = process_dishes api (case dishString of Some s \<Rightarrow> s | None \<Rightarrow> []);
             pack = packagingEmission (totalDishCount st) packagingType;
             (travelEmission, travelDist, t) = travel_main travelDetails
         in \<lparr>food = toFixed 2 (totalFoodEmission st),
             packaging = toFixed 2 pack,
             travel = toFixed 2 travelEmission,
             travelDistance = toFixed 2 travelDist,
             result_transportType = t,
             result_total = toFixed 2 (js_add (js_add (totalFoodEmission st) pack) travelEmission),
             details_dishes = dishDetails st,
             details_ingredients = ingredient_percentages (allIngredients st),
             details_dishCount = Some (totalDishCount st),
             details_packagingType = Some packagingType\<rparr>))"

subsection \<open>Observations on a result\<close>

text \<open>The line the loop of \<^verbatim>\<open>calculateFoodEmission\<close> takes from a clause: the count
  and the trimmed name of the first place where its pattern matches, if there is one.\<close>

definition matched_line :: "string \<Rightarrow> (nat \<times> string) option" where
  "matched_line item =
     (case regex_match item of
        None \<Rightarrow> None
      | Some (digits, rest) \<Rightarrow> Some (parseInt digits, trim rest))"

text \<open>The order lines a result reports, in order.\<close>

definition dish_lines :: "emission_result \<Rightarrow> (nat \<times> string) list" where
  "dish_lines r = map (\<lambda>d. (dish_count d, dish_name d)) (details_dishes r)"

text \<open>The sum of the percentages a result reports, each read back as a number.\<close>

definition percentage_sum :: "emission_result \<Rightarrow> jsnum" where
  "percentage_sum r =
     foldl js_add (Num 0) (map (\<lambda>(k, d). parseFloat (percentage d)) (details_ingredients r))"

text \<open>The four printed emissions are numbers, and the total is within 0.01 of the sum
  of the other three.\<close>

definition total_consistent :: "emission_result \<Rightarrow> bool" where
  "total_consistent r =
     (case (parseFloat (food r), parseFloat (packaging r), parseFloat (travel r),
            parseFloat (result_total r)) of
        (Num f, Num p, Num t, Num tot) \<Rightarrow> \<bar>tot - (f + p + t)\<bar> \<le> 0.01
      | _ \<Rightarrow> False)"

subsection \<open>The classifier, the parser and the packaging model in the specification's words\<close>

text \<open>
  The category classifier as the specification describes it: an ordered list of
  keyword sets, each with its category; the first set with a keyword in the name wins,
  and vegetables is the answer when none has.
\<close>

definition category_rules :: "(string list \<times> category) list" where
  "category_rules =
     [([''meat'', ''beef'', ''lamb'', ''pork'', ''veal''], Meat),
      ([''fish'', ''prawn'', ''shrimp'', ''salmon'', ''seafood''], Seafood),
      ([''milk'', ''cream'', ''cheese'', ''curd'', ''yogurt'', ''butter'', ''ghee''], Dairy),
      ([''flour'', ''bread'', ''roti'', ''naan'', ''rice'', ''cereal'', ''grain'', ''pasta''],
       Grains),
      ([''chickpeas'', ''lentils'', ''dal'', ''beans'', ''peas''], Pulses),
      ([''oil'', ''fat'', ''ghee''], Oil),
      ([''spice'', ''masala'', ''powder'', ''sauce'', ''paste'', ''extract''], Spices),
      ([''nut'', ''almond'', ''cashew'', ''seed''], Nuts),
      ([''drink'', ''juice'', ''tea'', ''coffee''], Beverages),
      ([''processed'', ''frozen'', ''ready'', ''instant''], Processed)]"

fun first_match :: "(string list \<times> category) list \<Rightarrow> string \<Rightarrow> category" where
  "first_match [] name = Vegetables"
| "first_match ((keywords, c) # rules) name =
     (if list_ex (str_includes name) keywords then c else first_match rules name)"

definition classify :: "string \<Rightarrow> category" where
  "classify ingredient = first_match category_rules (toLowerCase ingredient)"

text \<open>
  The dish string parser as the specification describes it. A clause is an order line
  when the whole of it has the form \<^verbatim>\<open><integer> x <dish name>\<close>: digits that make a
  positive count, the separator, and a name that is not blank. The clauses are the
  pieces between commas, lower-cased and trimmed; a clause of another form gives no
  line.
\<close>

definition spec_order_line :: "string \<Rightarrow> (nat \<times> string) option" where
  "spec_order_line clause =
     (let digits = takeWhile is_digit clause;
          rest = dropWhile is_digit clause;
          name = trim (drop 3 rest)
      in if digits \<noteq> [] \<and> take 3 rest = '' x '' \<and> name \<noteq> [] \<and> 0 < parseInt digits
         then Some (parseInt digits, name)
         else None)"

definition specified_lines :: "string \<Rightarrow> (nat \<times> string) list" where
  "specified_lines dishString =
     List.map_filter spec_order_line (map trim (split_comma (toLowerCase dishString)))"

text \<open>
  The packaging model as the specification describes it: the type is the given one if
  the table has it and the default one otherwise, likewise the size among the sizes of
  that type; the aggregator asks for the large size above two dishes.
\<close>

definition unit_factor :: "string \<Rightarrow> string \<Rightarrow> jsnum" where
  "unit_factor t s =
     (case map_of PACKAGING_EMISSIONS t of
        None \<Rightarrow> NaN
      | Some sizes \<Rightarrow> (case map_of sizes s of None \<Rightarrow> NaN | Some v \<Rightarrow> v))"

definition resolved_type :: "string \<Rightarrow> string" where
  "resolved_type t =
     (if t \<in> set (map fst PACKAGING_EMISSIONS) then t else DEFAULT_PACKAGING_type)"

definition resolved_size :: "string \<Rightarrow> string \<Rightarrow> string" where
  "resolved_size t s =
     (case map_of PACKAGING_EMISSIONS t of
        None \<Rightarrow> DEFAULT_PACKAGING_size
      | Some sizes \<Rightarrow> if s \<in> set (map fst sizes) then s else DEFAULT_PACKAGING_size)"

definition aggregator_size :: "nat \<Rightarrow> string" where
  "aggregator_size n = (if n > 2 then ''large'' else ''medium'')"

definition specified_packaging :: "nat \<Rightarrow> string \<Rightarrow> string \<Rightarrow> jsnum" where
  "specified_packaging n t s =
     js_add (js_mul (unit_factor (resolved_type t) (resolved_size (resolved_type t) s))
                    (Num (of_nat n)))
            (Num 0.05)"

subsection \<open>The number a printed value stands for\<close>

text \<open>The value \<^verbatim>\<open>toFixed(f)\<close> prints for a number: the nearest multiple of
  \<open>10^-f\<close>, a tie going away from zero; and, for two decimals, its count of hundredths.\<close>

definition rounded :: "nat \<Rightarrow> rat \<Rightarrow> rat" where
  "rounded f x = (if x < 0 then - 1 else 1) * rat_of_nat (fixed_units f x) / 10 ^ f"

definition hundredths :: "rat \<Rightarrow> int" where
  "hundredths x = (if x < 0 then - 1 else 1) * \<lfloor>\<bar>x\<bar> * 100 + 1 / 2\<rfloor>"

subsection \<open>Own keys\<close>

text \<open>No key of the object is a name inherited from \<^verbatim>\<open>Object.prototype\<close>.\<close>

definition own_keys :: "(string \<times> 'a) list \<Rightarrow> bool" where
  "own_keys obj = list_all (\<lambda>(k, v). k \<notin> set object_prototype_keys) obj"

section \<open>Properties\<close>

subsection \<open>Property reads and numbers\<close>

lemma js_get_Val: "map_of obj k = Some v \<Longrightarrow> js_get obj k = Val v"
  by (simp add: js_get_def)

lemma js_get_own:
  "k \<notin> set object_prototype_keys \<Longrightarrow>
     js_get obj k = (case map_of obj k of Some v \<Rightarrow> Val v | None \<Rightarrow> Undefined)"
  by (simp add: js_get_def split: option.splits)

lemma keys_some: "map_of obj k = Some v \<Longrightarrow> k \<in> set (map fst obj)"
  by (cases "k \<in> set (map fst obj)") (simp_all add: map_of_eq_None_iff [symmetric])

lemma keys_none: "map_of obj k = None \<Longrightarrow> k \<notin> set (map fst obj)"
  by (simp add: map_of_eq_None_iff)

lemma js_add_NaN [simp]: "js_add x NaN = NaN"
  by (cases x) simp_all

lemma js_gt0_truthy: "js_gt0 v \<Longrightarrow> truthy_num v"
  by (cases v) simp_all

lemma toFixed_NaN: "toFixed f NaN = ''NaN''"
  by (simp add: toFixed_def)

lemma parseFloat_NaN: "parseFloat ''NaN'' = NaN"
  by code_simp

lemma obj_set_nonempty: "obj_set obj k v \<noteq> []"
  by (cases obj) (auto split: if_splits)

lemma nums_nonempty: "nums (p # ps) \<noteq> []"
  by (simp add: nums_def)

lemma if_nonempty: "a \<noteq> [] \<Longrightarrow> b \<noteq> [] \<Longrightarrow> (if c then a else b) \<noteq> []"
  by simp


subsection \<open>The loop over the clauses\<close>



lemma dishDetails_process_item:
  "map (\<lambda>d. (dish_count d, dish_name d)) (dishDetails (process_item api st item))
     = map (\<lambda>d. (dish_count d, dish_name d)) (dishDetails st)
       @ (case matched_line item of None \<Rightarrow> [] | Some l \<Rightarrow> [l])"
  by (cases "regex_match item") (auto simp: process_item_def matched_line_def Let_def)

lemma dish_lines_foldl:
  "map (\<lambda>d. (dish_count d, dish_name d)) (dishDetails (foldl (process_item api) st items))
     = map (\<lambda>d. (dish_count d, dish_name d)) (dishDetails st) @ List.map_filter matched_line items"
proof (induction items arbitrary: st)
  case Nil
  show ?case by (simp add: List.map_filter_simps)
next
  case (Cons item items)
  have "map (\<lambda>d. (dish_count d, dish_name d))
          (dishDetails (foldl (process_item api) st (item # items)))
        = map (\<lambda>d. (dish_count d, dish_name d)) (dishDetails (process_item api st item))
          @ List.map_filter matched_line items"
    using Cons.IH [of "process_item api st item"] by simp
  then show ?case
    by (cases "matched_line item") (simp_all add: dishDetails_process_item List.map_filter_simps)
qed

lemma dish_lines_parse:
  "dish_lines (calculateFoodEmission api (Some s) tr pt) = List.map_filter matched_line (dishes s)"
proof (cases "s = []")
  case True
  have "List.map_filter matched_line (dishes []) = []" by code_simp
  with True show ?thesis
    by (simp add: dish_lines_def calculateFoodEmission_def split: prod.splits)
next
  case False
  then show ?thesis
    by (simp add: dish_lines_def calculateFoodEmission_def Let_def process_dishes_def
        dish_lines_foldl split: prod.splits)
qed

subsection \<open>Splitting at commas\<close>

lemma split_comma_nonempty: "split_comma s \<noteq> []"
  by (induction s) (auto split: list.splits)

lemma split_comma_append:
  "split_comma (a @ CHR '','' # b) = split_comma a @ split_comma b"
proof (induction a)
  case Nil
  show ?case by simp
next
  case (Cons c a)
  obtain p ps where "split_comma a = p # ps"
    using split_comma_nonempty [of a] by (cases "split_comma a") auto
  with Cons show ?case by simp
qed

lemma split_comma_single: "CHR '','' \<notin> set m \<Longrightarrow> split_comma m = [m]"
  by (induction m) auto

lemma toLowerCase_comma:
  "toLowerCase (a @ CHR '','' # b) = toLowerCase a @ CHR '','' # toLowerCase b"
  by (simp add: toLowerCase_def toLowerCase_char_def)

lemma toLowerCase_char_comma: "toLowerCase_char c = CHR '','' \<Longrightarrow> c = CHR '',''"
  by (auto simp: toLowerCase_char_def split: option.splits if_splits)

lemma toLowerCase_no_comma:
  assumes "CHR '','' \<notin> set m"
  shows "CHR '','' \<notin> set (toLowerCase m)"
proof
  assume "CHR '','' \<in> set (toLowerCase m)"
  then obtain c where "c \<in> set m" and "toLowerCase_char c = CHR '',''"
    unfolding toLowerCase_def by auto
  with toLowerCase_char_comma [of c] assms show False by simp
qed

lemma dishes_append: "dishes (a @ CHR '','' # b) = dishes a @ dishes b"
  by (simp add: dishes_def toLowerCase_comma split_comma_append)

lemma dishes_single: "CHR '','' \<notin> set m \<Longrightarrow> dishes m = [trim (toLowerCase m)]"
  by (simp add: dishes_def toLowerCase_no_comma split_comma_single)

lemma map_filter_append:
  "List.map_filter f (xs @ ys) = List.map_filter f xs @ List.map_filter f ys"
  by (simp add: List.map_filter_def)

text \<open>What the loop does with a clause its pattern matches nowhere: nothing, wherever
  the clause stands among the others.\<close>

lemma unmatched_clause_skipped:
  assumes "CHR '','' \<notin> set m" and "regex_match (trim (toLowerCase m)) = None"
  shows "dish_lines (calculateFoodEmission api (Some (a @ '','' @ m @ '','' @ b)) tr pt)
           = dish_lines (calculateFoodEmission api (Some (a @ '','' @ b)) tr pt)"
    and "dish_lines (calculateFoodEmission api (Some (m @ '','' @ b)) tr pt)
           = dish_lines (calculateFoodEmission api (Some b) tr pt)"
    and "dish_lines (calculateFoodEmission api (Some (a @ '','' @ m)) tr pt)
           = dish_lines (calculateFoodEmission api (Some a) tr pt)"
proof -
  have "List.map_filter matched_line (dishes m) = []"
    using assms by (simp add: dishes_single List.map_filter_simps matched_line_def)
  then show
    "dish_lines (calculateFoodEmission api (Some (a @ '','' @ m @ '','' @ b)) tr pt)
       = dish_lines (calculateFoodEmission api (Some (a @ '','' @ b)) tr pt)"
    "dish_lines (calculateFoodEmission api (Some (m @ '','' @ b)) tr pt)
       = dish_lines (calculateFoodEmission api (Some b) tr pt)"
    "dish_lines (calculateFoodEmission api (Some (a @ '','' @ m)) tr pt)
       = dish_lines (calculateFoodEmission api (Some a) tr pt)"
    by (simp_all add: dish_lines_parse dishes_append map_filter_append)
qed

text \<open>A clause of the specified form, on one line, is read by the loop as the
  specification reads it.\<close>

lemma well_formed_clause_parsed:
  assumes "spec_order_line clause = Some l"
    and "list_all (\<lambda>c. \<not> is_line_terminator c) clause"
  shows "matched_line clause = Some l"
proof -
  define ds where "ds = takeWhile is_digit clause"
  define r where "r = dropWhile is_digit clause"
  have ok: "ds \<noteq> []" "take 3 r = '' x ''" "trim (drop 3 r) \<noteq> []"
    and l: "l = (parseInt ds, trim (drop 3 r))"
    using assms(1)
    by (simp_all add: spec_order_line_def Let_def ds_def r_def split: if_splits)
  have "list_all (\<lambda>c. \<not> is_line_terminator c) (drop 3 r)"
    using assms(2) unfolding r_def list_all_iff
    by (meson in_set_dropD set_dropWhileD)
  then have g: "takeWhile (\<lambda>c. \<not> is_line_terminator c) (drop 3 r) = drop 3 r"
    by (simp add: list_all_iff)
  have ne: "drop 3 r \<noteq> []"
    using ok(3) by (auto simp: trim_def)
  have at: "regex_at clause = Some (ds, drop 3 r)"
    unfolding regex_at_def Let_def ds_def [symmetric] r_def [symmetric] g
    using ok(1,2) ne by simp
  have "clause \<noteq> []" using ok(1) by (auto simp: ds_def)
  then obtain c cs where "clause = c # cs" by (cases clause) auto
  with at have "regex_match clause = Some (ds, drop 3 r)" by simp
  then show ?thesis by (simp add: matched_line_def l)
qed

lemma lines_butter_chicken_naan:
  "List.map_filter matched_line (dishes ''2 x butter chicken, 1 x naan'')
     = [(2, ''butter chicken''), (1, ''naan'')]"
  by code_simp

lemma lines_abc_naan:
  "List.map_filter matched_line (dishes ''abc, 1 x naan'') = [(1, ''naan'')]"
  by code_simp

lemma lines_fraction_naan:
  "List.map_filter matched_line (dishes ''1.5 x naan, 1 x naan'') = [(5, ''naan''), (1, ''naan'')]"
  by code_simp

lemma lines_prefixed_naan:
  "List.map_filter matched_line (dishes ''abc 2 x naan, 1 x naan'')
     = [(2, ''naan''), (1, ''naan'')]"
  by code_simp

lemma specified_examples:
  "specified_lines ''2 x butter chicken, 1 x naan'' = [(2, ''butter chicken''), (1, ''naan'')]"
  "specified_lines ''abc, 1 x naan'' = [(1, ''naan'')]"
  "specified_lines ''1.5 x naan, 1 x naan'' = [(1, ''naan'')]"
  "specified_lines ''abc 2 x naan, 1 x naan'' = [(1, ''naan'')]"
  "spec_order_line ''1.5 x naan'' = None"
  "spec_order_line ''abc 2 x naan'' = None"
  by code_simp+

text \<open>
  C7. The claim fails on the code. The two example strings do give the lines the claim
  states: \<^verbatim>\<open>"2 x butter chicken, 1 x naan"\<close> gives (2, butter chicken) and (1, naan), and
  \<^verbatim>\<open>"abc, 1 x naan"\<close> gives (1, naan) alone. But a malformed clause is not always
  skipped: the pattern is searched for anywhere in the clause, so \<^verbatim>\<open>"1.5 x naan"\<close>,
  which is not of the form \<^verbatim>\<open><integer> x <dish name>\<close>, is taken as five naan, and
  \<^verbatim>\<open>"abc 2 x naan"\<close> as two. Beside the valid clause \<^verbatim>\<open>"1 x naan"\<close> each gives two
  order lines where the specified parser gives one.
\<close>

theorem malformed_clause_not_skipped:
  "dish_lines (calculateFoodEmission api (Some ''2 x butter chicken, 1 x naan'') tr pt)
     = [(2, ''butter chicken''), (1, ''naan'')]
   \<and> dish_lines (calculateFoodEmission api (Some ''abc, 1 x naan'') tr pt) = [(1, ''naan'')]
   \<and> spec_order_line ''1.5 x naan'' = None
   \<and> specified_lines ''1.5 x naan, 1 x naan'' = [(1, ''naan'')]
   \<and> dish_lines (calculateFoodEmission api (Some ''1.5 x naan, 1 x naan'') tr pt)
       = [(5, ''naan''), (1, ''naan'')]
   \<and> spec_order_line ''abc 2 x naan'' = None
   \<and> specified_lines ''abc 2 x naan, 1 x naan'' = [(1, ''naan'')]
   \<and> dish_lines (calculateFoodEmission api (Some ''abc 2 x naan, 1 x naan'') tr pt)
       = [(2, ''naan''), (1, ''naan'')]"
  by (simp only: dish_lines_parse lines_butter_chicken_naan lines_abc_naan
      lines_fraction_naan lines_prefixed_naan specified_examples simp_thms)

subsection \<open>Packaging of an order without dishes\<close>

lemma packaging_keys:
  "set (map fst PACKAGING_EMISSIONS)
     = {''plastic'', ''paper'', ''aluminum'', ''styrofoam'', ''glass''}"
  by (simp add: PACKAGING_EMISSIONS_def)




lemma packaging_early:
  "packaging (calculateFoodEmission api None tr pt) = ''0.00''"
  "packaging (calculateFoodEmission api (Some []) tr pt) = ''0.00''"
  by (simp_all add: calculateFoodEmission_def split: prod.splits)

lemma packaging_main:
  "s \<noteq> [] \<Longrightarrow> packaging (calculateFoodEmission api (Some s) tr pt)
     = toFixed 2 (packagingEmission (totalDishCount (process_dishes api s)) pt)"
  by (simp add: calculateFoodEmission_def Let_def split: prod.splits)



subsection \<open>The fields of a result\<close>

lemma travel_early_field:
  "travel (calculateFoodEmission api None tr pt) = toFixed 2 (fst (travel_early tr))"
  "travel (calculateFoodEmission api (Some []) tr pt) = toFixed 2 (fst (travel_early tr))"
  by (simp_all add: calculateFoodEmission_def split: prod.splits)

lemma travel_main_field:
  "travel (calculateFoodEmission api (Some (c # s)) tr pt) = toFixed 2 (fst (travel_main tr))"
  by (simp add: calculateFoodEmission_def Let_def split: prod.splits)

lemma total_early_field:
  "result_total (calculateFoodEmission api None tr pt) = toFixed 2 (fst (travel_early tr))"
  "result_total (calculateFoodEmission api (Some []) tr pt) = toFixed 2 (fst (travel_early tr))"
  by (simp_all add: calculateFoodEmission_def split: prod.splits)

lemma total_main_field:
  "result_total (calculateFoodEmission api (Some (c # s)) tr pt)
     = toFixed 2 (js_add (js_add (totalFoodEmission (process_dishes api (c # s)))
                    (packagingEmission (totalDishCount (process_dishes api (c # s))) pt))
                  (fst (travel_main tr)))"
  by (simp add: calculateFoodEmission_def Let_def split: prod.splits)

lemma food_main_field:
  "food (calculateFoodEmission api (Some (c # s)) tr pt)
     = toFixed 2 (totalFoodEmission (process_dishes api (c # s)))"
  by (simp add: calculateFoodEmission_def Let_def split: prod.splits)

lemma ingredients_main_field:
  "details_ingredients (calculateFoodEmission api (Some (c # s)) tr pt)
     = ingredient_percentages (allIngredients (process_dishes api (c # s)))"
  by (simp add: calculateFoodEmission_def Let_def split: prod.splits)

subsection \<open>Printing a number and reading it back\<close>

lemma is_digit_digit_char: "d < 10 \<Longrightarrow> is_digit (digit_char d)"
proof -
  assume "d < 10"
  then have "d \<in> {0,1,2,3,4,5,6,7,8,9}" by auto
  then show ?thesis
    by (elim insertE emptyE) (simp_all add: is_digit_def digit_char_def)
qed

lemma digit_value_digit_char: "d < 10 \<Longrightarrow> digit_value (digit_char d) = d"
proof -
  assume "d < 10"
  then have "d \<in> {0,1,2,3,4,5,6,7,8,9}" by auto
  then show ?thesis
    by (elim insertE emptyE) (simp_all add: digit_value_def digit_char_def upt_rec)
qed

lemma parseInt_snoc: "parseInt (ds @ [c]) = 10 * parseInt ds + digit_value c"
  by (simp add: parseInt_def)

lemma digits_of_props:
  "digits_of n \<noteq> [] \<and> list_all is_digit (digits_of n) \<and> parseInt (digits_of n) = n"
proof (induction n rule: digits_of.induct)
  case (1 n)
  show ?case
  proof (cases "n < 10")
    case True
    then show ?thesis
      by (simp add: digits_of.simps [of n] is_digit_digit_char digit_value_digit_char parseInt_def)
  next
    case False
    with 1 show ?thesis
      by (simp add: digits_of.simps [of n] is_digit_digit_char digit_value_digit_char
          parseInt_snoc)
  qed
qed

lemma parseInt_append:
  "parseInt (xs @ ys) = parseInt xs * 10 ^ length ys + parseInt ys"
proof (induction ys rule: rev_induct)
  case Nil
  show ?case by (simp add: parseInt_def)
next
  case (snoc c ys)
  have "parseInt (xs @ ys @ [c]) = 10 * parseInt (xs @ ys) + digit_value c"
    using parseInt_snoc [of "xs @ ys" c] by simp
  then show ?case by (simp add: snoc parseInt_snoc algebra_simps)
qed

lemma digit_value_zero: "digit_value (CHR ''0'') = 0"
  by (simp add: digit_value_def upt_rec)

lemma parseInt_zeros: "parseInt (replicate j (CHR ''0'')) = 0"
proof (induction j)
  case 0
  show ?case by (simp add: parseInt_def)
next
  case (Suc j)
  have "replicate (Suc j) (CHR ''0'') = replicate j (CHR ''0'') @ [CHR ''0'']"
    by (simp add: replicate_append_same)
  then show ?case by (simp only: parseInt_snoc Suc digit_value_zero)
qed

lemma is_digit_zero: "is_digit (CHR ''0'')"
  by (simp add: is_digit_def)

lemma not_digit_point: "\<not> is_digit (CHR ''.'')" and not_digit_minus: "\<not> is_digit (CHR ''-'')"
  by (simp_all add: is_digit_def)

text \<open>Reading back a sign, digits, a point and digits.\<close>

lemma parseFloat_shape:
  assumes ip: "ip \<noteq> []" "list_all is_digit ip" and fp: "list_all is_digit fp"
  shows "parseFloat ((if neg then [CHR ''-''] else []) @ ip @ CHR ''.'' # fp)
           = Num ((if neg then - 1 else 1)
                  * (rat_of_nat (parseInt ip) + rat_of_nat (parseInt fp) / 10 ^ length fp))"
proof -
  obtain c cs where c: "ip = c # cs" using ip(1) by (cases ip) auto
  with ip(2) have d: "is_digit c" by simp
  then have nm: "c \<noteq> CHR ''-''" using not_digit_minus by auto
  have tw: "takeWhile is_digit (ip @ CHR ''.'' # fp) = ip"
    using ip(2) not_digit_point by (simp add: takeWhile_append2 list_all_iff)
  have dw: "dropWhile is_digit (ip @ CHR ''.'' # fp) = CHR ''.'' # fp"
    using ip(2) not_digit_point by (simp add: dropWhile_append2 list_all_iff)
  have tf: "takeWhile is_digit fp = fp"
    using fp by (simp add: list_all_iff)
  show ?thesis
  proof (cases neg)
    case True
    then show ?thesis
      using ip(1) by (simp add: parseFloat_def Let_def tw dw tf)
  next
    case False
    have "take 1 (ip @ CHR ''.'' # fp) \<noteq> [CHR ''-'']" using nm c by simp
    with False show ?thesis
      using ip(1) by (simp add: parseFloat_def Let_def tw dw tf)
  qed
qed

lemma parseFloat_toFixed:
  assumes "0 < f"
  shows "parseFloat (toFixed f (Num x)) = Num (rounded f x)"
proof -
  define n where "n = fixed_units f x"
  define m where "m = digits_of n"
  define z where "z = (if length m \<le> f then replicate (f + 1 - length m) (CHR ''0'') @ m else m)"
  have m: "m \<noteq> []" "list_all is_digit m" "parseInt m = n"
    using digits_of_props [of n] by (simp_all add: m_def)
  have zd: "list_all is_digit z"
    using m(2) is_digit_zero by (simp add: z_def list_all_iff)
  have zv: "parseInt z = n"
    using m(3) by (simp add: z_def parseInt_append parseInt_zeros)
  have zl: "f < length z"
    using m(1) by (auto simp: z_def)
  define ip where "ip = take (length z - f) z"
  define fp where "fp = drop (length z - f) z"
  have z: "z = ip @ fp" by (simp add: ip_def fp_def)
  have ipn: "ip \<noteq> []" using zl by (cases z) (auto simp: ip_def)
  have ipd: "list_all is_digit ip" and fpd: "list_all is_digit fp"
    using zd by (auto simp: ip_def fp_def list_all_iff dest: in_set_takeD in_set_dropD)
  have fl: "length fp = f" using zl by (simp add: fp_def)
  have "n = parseInt ip * 10 ^ f + parseInt fp"
    using zv parseInt_append [of ip fp] by (simp add: z fl)
  then have "rat_of_nat n = rat_of_nat (parseInt ip * 10 ^ f + parseInt fp)"
    by (rule arg_cong)
  then have "rat_of_nat n = rat_of_nat (parseInt ip) * 10 ^ f + rat_of_nat (parseInt fp)"
    by simp
  then have v: "rat_of_nat (parseInt ip) + rat_of_nat (parseInt fp) / 10 ^ length fp
      = rat_of_nat n / 10 ^ f"
    by (simp add: fl field_simps)
  have "toFixed f (Num x) = (if x < 0 then [CHR ''-''] else []) @ ip @ CHR ''.'' # fp"
    using assms by (simp add: toFixed_def Let_def n_def m_def z_def ip_def fp_def)
  then show ?thesis
    using parseFloat_shape [OF ipn ipd fpd, of "x < 0"] v
    by (simp add: rounded_def n_def)
qed

subsection \<open>The total against the sum of the printed parts\<close>

lemma rounded_hundredths: "rounded 2 x = rat_of_int (hundredths x) / 100"
proof -
  have "0 \<le> \<lfloor>\<bar>x\<bar> * 100 + 1 / 2\<rfloor>" by simp
  then have "rat_of_nat (nat \<lfloor>\<bar>x\<bar> * 100 + 1 / 2\<rfloor>) = rat_of_int \<lfloor>\<bar>x\<bar> * 100 + 1 / 2\<rfloor>"
    by simp
  then show ?thesis
    by (simp add: rounded_def fixed_units_def hundredths_def)
qed

lemma hundredths_bounds:
  fixes x :: rat
  defines "h \<equiv> rat_of_int (hundredths x)"
  shows "100 * x - 1 / 2 \<le> h" and "h \<le> 100 * x + 1 / 2"
    and "0 \<le> x \<Longrightarrow> 100 * x - 1 / 2 < h" and "x < 0 \<Longrightarrow> h < 100 * x + 1 / 2"
proof -
  define k where "k = rat_of_int \<lfloor>\<bar>x\<bar> * 100 + 1 / 2\<rfloor>"
  have k1: "k \<le> \<bar>x\<bar> * 100 + 1 / 2" and k2: "\<bar>x\<bar> * 100 + 1 / 2 < k + 1"
    unfolding k_def by linarith+
  have h: "h = (if x < 0 then - k else k)"
    by (simp add: h_def hundredths_def k_def)
  show "100 * x - 1 / 2 \<le> h" and "h \<le> 100 * x + 1 / 2"
    and "0 \<le> x \<Longrightarrow> 100 * x - 1 / 2 < h" and "x < 0 \<Longrightarrow> h < 100 * x + 1 / 2"
    using k1 k2 unfolding h by (cases "x < 0"; simp; linarith)+
qed

lemma tolerance_upper:
  fixes a b c ha hb hc hs :: rat
  assumes "100 * a - 1 / 2 \<le> ha" and "100 * b - 1 / 2 \<le> hb" and "100 * c - 1 / 2 \<le> hc"
    and "hs \<le> 100 * (a + b + c) + 1 / 2"
    and "hs < 100 * (a + b + c) + 1 / 2 \<or> 100 * a - 1 / 2 < ha \<or> 100 * b - 1 / 2 < hb
         \<or> 100 * c - 1 / 2 < hc"
  shows "hs - (ha + hb + hc) < 2"
  using assms by (elim disjE) (simp_all add: algebra_simps)

lemma tolerance_lower:
  fixes a b c ha hb hc hs :: rat
  assumes "ha \<le> 100 * a + 1 / 2" and "hb \<le> 100 * b + 1 / 2" and "hc \<le> 100 * c + 1 / 2"
    and "100 * (a + b + c) - 1 / 2 \<le> hs"
    and "100 * (a + b + c) - 1 / 2 < hs \<or> ha < 100 * a + 1 / 2 \<or> hb < 100 * b + 1 / 2
         \<or> hc < 100 * c + 1 / 2"
  shows "- 2 < hs - (ha + hb + hc)"
  using assms by (elim disjE) (simp_all add: algebra_simps)

lemma hundredths_sum:
  "\<bar>hundredths (a + b + c) - (hundredths a + hundredths b + hundredths c)\<bar> \<le> 1"
proof -
  let ?d = "hundredths (a + b + c) - (hundredths a + hundredths b + hundredths c)"
  let ?ha = "rat_of_int (hundredths a)" and ?hb = "rat_of_int (hundredths b)"
  let ?hc = "rat_of_int (hundredths c)" and ?hs = "rat_of_int (hundredths (a + b + c))"
  have u: "?hs < 100 * (a + b + c) + 1 / 2 \<or> 100 * a - 1 / 2 < ?ha \<or> 100 * b - 1 / 2 < ?hb
         \<or> 100 * c - 1 / 2 < ?hc"
  proof -
    consider "a + b + c < 0" | "0 \<le> a" | "0 \<le> b" | "0 \<le> c" by linarith
    then show ?thesis
      by cases (simp_all only: hundredths_bounds(3,4) simp_thms)
  qed
  have l: "100 * (a + b + c) - 1 / 2 < ?hs \<or> ?ha < 100 * a + 1 / 2 \<or> ?hb < 100 * b + 1 / 2
         \<or> ?hc < 100 * c + 1 / 2"
  proof -
    consider "0 \<le> a + b + c" | "a < 0" | "b < 0" | "c < 0" by linarith
    then show ?thesis
      by cases (simp_all only: hundredths_bounds(3,4) simp_thms)
  qed
  have "?hs - (?ha + ?hb + ?hc) < 2"
    by (rule tolerance_upper [OF hundredths_bounds(1) hundredths_bounds(1)
          hundredths_bounds(1) hundredths_bounds(2) u])
  moreover have "- 2 < ?hs - (?ha + ?hb + ?hc)"
    by (rule tolerance_lower [OF hundredths_bounds(2) hundredths_bounds(2)
          hundredths_bounds(2) hundredths_bounds(1) l])
  ultimately have "rat_of_int ?d < rat_of_int 2" and "rat_of_int (- 2) < rat_of_int ?d"
    by simp_all
  then have "?d < 2" and "- 2 < ?d"
    by (simp_all only: of_int_less_iff)
  then show ?thesis by linarith
qed

lemma rounded_sum:
  "\<bar>rounded 2 (a + b + c) - (rounded 2 a + rounded 2 b + rounded 2 c)\<bar> \<le> 1 / 100"
proof -
  let ?d = "hundredths (a + b + c) - (hundredths a + hundredths b + hundredths c)"
  have e: "rounded 2 (a + b + c) - (rounded 2 a + rounded 2 b + rounded 2 c)
      = rat_of_int ?d / 100"
    by (simp add: rounded_hundredths diff_divide_distrib add_divide_distrib)
  have "\<bar>?d\<bar> \<le> 1" by (rule hundredths_sum)
  then have "\<bar>rat_of_int ?d\<bar> \<le> 1" by linarith
  then have "\<bar>rat_of_int ?d / 100\<bar> \<le> 1 / 100" by simp
  then show ?thesis by (simp only: e)
qed

lemma food_early:
  "food (calculateFoodEmission api None tr pt) = ''0.00''"
  "food (calculateFoodEmission api (Some []) tr pt) = ''0.00''"
  by (simp_all add: calculateFoodEmission_def split: prod.splits)

lemma parseFloat_zero: "parseFloat ''0.00'' = Num 0"
  by code_simp

lemma toFixed_number: "toFixed 2 (Num x) \<noteq> ''NaN''"
proof
  assume "toFixed 2 (Num x) = ''NaN''"
  then have "parseFloat (toFixed 2 (Num x)) = parseFloat ''NaN''" by (rule arg_cong)
  then show False by (simp add: parseFloat_toFixed parseFloat_NaN)
qed

lemma consistent_parts:
  assumes "food r = toFixed 2 F" and "packaging r = toFixed 2 P" and "travel r = toFixed 2 T"
    and "result_total r = toFixed 2 (js_add (js_add F P) T)"
  shows "total_consistent r \<longleftrightarrow> result_total r \<noteq> ''NaN''"
proof (cases "\<exists>f p t. F = Num f \<and> P = Num p \<and> T = Num t")
  case True
  then obtain f p t where v: "F = Num f" "P = Num p" "T = Num t" by blast
  have "\<bar>rounded 2 (f + p + t) - (rounded 2 f + rounded 2 p + rounded 2 t)\<bar> \<le> 1 / 100"
    by (rule rounded_sum)
  then show ?thesis
    using assms by (simp add: total_consistent_def v parseFloat_toFixed toFixed_number)
next
  case False
  then have "js_add (js_add F P) T = NaN"
    by (cases F; cases P; cases T) simp_all
  then show ?thesis
    using assms by (simp add: total_consistent_def toFixed_NaN parseFloat_NaN split: jsnum.splits)
qed

lemma consistent_early:
  assumes "food r = ''0.00''" and "packaging r = ''0.00''" and "travel r = toFixed 2 T"
    and "result_total r = toFixed 2 T"
  shows "total_consistent r \<longleftrightarrow> result_total r \<noteq> ''NaN''"
proof (cases T)
  case (Num t)
  then show ?thesis
    using assms by (simp add: total_consistent_def parseFloat_zero parseFloat_toFixed toFixed_number)
next
  case NaN
  then show ?thesis
    using assms by (simp add: total_consistent_def toFixed_NaN parseFloat_NaN split: jsnum.splits)
qed

text \<open>
  For every input of the model the total is within 0.01 of the sum of the printed food,
  packaging and travel emissions exactly when it is a number: the three roundings and
  the rounding of the sum can differ by one hundredth and no more.
\<close>

lemma total_consistent_iff:
  "total_consistent (calculateFoodEmission api dishString tr pt)
     \<longleftrightarrow> result_total (calculateFoodEmission api dishString tr pt) \<noteq> ''NaN''"
proof (cases dishString)
  case None
  show ?thesis unfolding None
    by (rule consistent_early [OF food_early(1) packaging_early(1) travel_early_field(1)
          total_early_field(1)])
next
  case (Some a)
  show ?thesis
  proof (cases a)
    case Nil
    show ?thesis unfolding Some Nil
      by (rule consistent_early [OF food_early(2) packaging_early(2) travel_early_field(2)
            total_early_field(2)])
  next
    case (Cons c s)
    have ne: "c # s \<noteq> []" by simp
    show ?thesis unfolding Some Cons
      by (rule consistent_parts [OF food_main_field packaging_main [OF ne] travel_main_field
            total_main_field])
  qed
qed

subsection \<open>A travel object with an unknown transport type\<close>

lemma travel_rocket:
  "fst (travel_early (TObject \<lparr>distance = Some (Num 5), transportType = Some ''rocket'',
      emissionFactor = Undefined\<rparr>)) = NaN"
  "fst (travel_main (TObject \<lparr>distance = Some (Num 5), transportType = Some ''rocket'',
      emissionFactor = Undefined\<rparr>)) = NaN"
  by code_simp+

lemma not_consistent_NaN: "result_total r = ''NaN'' \<Longrightarrow> \<not> total_consistent r"
  by (simp add: total_consistent_def parseFloat_NaN split: jsnum.splits)

text \<open>
  C1. The claim fails on the code. A travel object that carries a distance, names a
  transport type the travel table does not have and carries no emission factor (a shape
  the input interface admits) makes the travel emission \<open>NaN\<close>: whatever the dish string
  and the packaging type, the \<open>travel\<close> and \<open>total\<close> fields are printed \<^verbatim>\<open>"NaN"\<close> and
  the total is not within 0.01 of the sum of the three parts. (By \<open>total_consistent_iff\<close>
  a total that is not a number is the only way the property fails.)
\<close>

theorem total_not_a_number:
  "travel (calculateFoodEmission api dishString
      (TObject \<lparr>distance = Some (Num 5), transportType = Some ''rocket'',
                emissionFactor = Undefined\<rparr>) pt) = ''NaN''
   \<and> result_total (calculateFoodEmission api dishString
      (TObject \<lparr>distance = Some (Num 5), transportType = Some ''rocket'',
                emissionFactor = Undefined\<rparr>) pt) = ''NaN''
   \<and> \<not> total_consistent (calculateFoodEmission api dishString
      (TObject \<lparr>distance = Some (Num 5), transportType = Some ''rocket'',
                emissionFactor = Undefined\<rparr>) pt)"
proof -
  let ?r = "calculateFoodEmission api dishString
      (TObject \<lparr>distance = Some (Num 5), transportType = Some ''rocket'',
                emissionFactor = Undefined\<rparr>) pt"
  have "travel ?r = ''NaN'' \<and> result_total ?r = ''NaN''"
  proof (cases dishString)
    case None
    then show ?thesis
      by (simp add: travel_early_field total_early_field travel_rocket toFixed_NaN)
  next
    case (Some a)
    show ?thesis
    proof (cases a)
      case Nil
      with Some show ?thesis
        by (simp add: travel_early_field total_early_field travel_rocket toFixed_NaN)
    next
      case (Cons c s)
      with Some show ?thesis
        by (simp add: travel_main_field total_main_field travel_rocket toFixed_NaN)
    qed
  qed
  then show ?thesis using not_consistent_NaN [of ?r] by simp
qed

subsection \<open>Percentages\<close>

lemma tawa_roti:
  "process_dishes api ''1 x tawa roti''
     = \<lparr>totalFoodEmission = Num 0.0866, totalDishCount = 1,
        allIngredients = [(''wheat'', Num 50), (''oil'', Num 2)],
        dishDetails =
          [\<lparr>dish_name = ''tawa roti'', dish_count = 1, dish_emission = ''0.09'',
            dish_totalEmission = ''0.09'',
            dish_ingredients = [(''wheat'', Num 50), (''oil'', Num 2)]\<rparr>]\<rparr>"
  by code_simp

lemma tawa_roti_percentages:
  "ingredient_percentages [(''wheat'', Num 50), (''oil'', Num 2)]
     = [(''wheat'', \<lparr>amount = ''50.0'', emission = ''0.08'', percentage = ''92.4''\<rparr>),
        (''oil'', \<lparr>amount = ''2.0'', emission = ''0.01'', percentage = ''11.5''\<rparr>)]"
  by code_simp

lemma tawa_roti_food: "toFixed 2 (Num 0.0866) = ''0.09''"
  by code_simp

lemma tawa_roti_sum:
  "foldl js_add (Num 0) (map (\<lambda>(k, d). parseFloat (percentage d))
     [(''wheat'', \<lparr>amount = ''50.0'', emission = ''0.08'', percentage = ''92.4''\<rparr>),
      (''oil'', \<lparr>amount = ''2.0'', emission = ''0.01'', percentage = ''11.5''\<rparr>)])
   = Num 103.9"
  by code_simp

text \<open>
  C2. The claim fails on the code. For the one dish \<^verbatim>\<open>"1 x tawa roti"\<close> of the recipe
  table (wheat 50 g, oil 2 g) the food emission is 0.0866 kg, printed \<^verbatim>\<open>"0.09"\<close>. The
  percentage loop divides the emissions as printed, 0.08 and 0.01, by the unrounded
  total: the shares are 92.4 and 11.5, and their sum is 103.9, not 100 within 0.5.
\<close>

theorem percentages_from_rounded_emissions:
  "food (calculateFoodEmission api (Some ''1 x tawa roti'') tr pt) = ''0.09''
   \<and> details_ingredients (calculateFoodEmission api (Some ''1 x tawa roti'') tr pt)
       = [(''wheat'', \<lparr>amount = ''50.0'', emission = ''0.08'', percentage = ''92.4''\<rparr>),
          (''oil'', \<lparr>amount = ''2.0'', emission = ''0.01'', percentage = ''11.5''\<rparr>)]
   \<and> percentage_sum (calculateFoodEmission api (Some ''1 x tawa roti'') tr pt) = Num 103.9"
  by (simp only: food_main_field ingredients_main_field percentage_sum_def tawa_roti
      tawa_roti_percentages tawa_roti_food tawa_roti_sum loop_state.simps simp_thms)

subsection \<open>Recipe resolution\<close>

lemma estimate_nonempty: "estimateDishIngredients dishName \<noteq> []"
  unfolding estimateDishIngredients_def Let_def
  by (intro if_nonempty nums_nonempty obj_set_nonempty)

lemma collect_nonempty:
  "collect_ingredients acc items = Inr r \<Longrightarrow> r = [] \<longleftrightarrow> acc = [] \<and> items = []"
proof (induction acc items rule: collect_ingredients.induct)
  case (1 result)
  then show ?case by auto
next
  case (2 result items)
  then show ?case by simp
next
  case (3 result name amount items)
  then show ?case by (simp add: obj_set_nonempty)
qed

lemma recipes_all_nonempty: "list_all (\<lambda>(k, r). r \<noteq> []) RECIPE_DB"
  by code_simp

lemma recipes_nonempty: "map_of RECIPE_DB d = Some r \<Longrightarrow> r \<noteq> []"
  using recipes_all_nonempty map_of_SomeD [of RECIPE_DB d r]
  by (auto simp: list_all_iff)

lemma fetch_empty_iff:
  "fetchIngredientsFromAPI api d = [] \<longleftrightarrow> api d = Ingredients []"
proof (cases "api d")
  case (Ingredients items)
  show ?thesis
  proof (cases "collect_ingredients [] items")
    case (Inl e)
    then have "items \<noteq> []" by (cases items) auto
    with Inl Ingredients show ?thesis
      by (simp add: fetchIngredientsFromAPI_def fetch_try_def estimate_nonempty)
  next
    case (Inr r)
    with collect_nonempty [OF Inr] Ingredients show ?thesis
      by (simp add: fetchIngredientsFromAPI_def fetch_try_def)
  qed
qed (simp_all add: fetchIngredientsFromAPI_def fetch_try_def estimate_nonempty)

text \<open>
  C3, the claim as stated fails: when the recipe service answers a dish that is not in
  the recipe table with an empty list of ingredients, nothing is thrown, the estimator
  is not consulted and the resolved map is empty (the emission of such a dish is then
  the default 1.5).
\<close>

theorem empty_lookup_counterexample:
  "resolveIngredients (\<lambda>_. Ingredients []) ''mystery stew'' = []
   \<and> computeEmissionFromIngredients (resolveIngredients (\<lambda>_. Ingredients []) ''mystery stew'')
       = Num 1.5"
  by code_simp

text \<open>
  C3, amended. Recipe resolution returns a map for every dish name and every behaviour
  of the recipe service: an error thrown while the service is consulted is answered by
  the estimator, whose map always has an entry. The resolved map is empty in two cases
  only: the service lists no ingredient for a dish that is not in the recipe table, or
  the dish name is a property name the table object inherits.
\<close>

theorem recipe_resolution:
  "(fetch_try api d = Inl e \<longrightarrow> fetchIngredientsFromAPI api d = estimateDishIngredients d)
   \<and> estimateDishIngredients d \<noteq> []
   \<and> (resolveIngredients api d = []
        \<longleftrightarrow> js_get RECIPE_DB d = Builtin
            \<or> js_get RECIPE_DB d = Undefined \<and> api d = Ingredients [])"
proof (intro conjI impI)
  assume "fetch_try api d = Inl e"
  then show "fetchIngredientsFromAPI api d = estimateDishIngredients d"
    by (simp add: fetchIngredientsFromAPI_def)
next
  show "estimateDishIngredients d \<noteq> []" by (rule estimate_nonempty)
next
  show "resolveIngredients api d = []
        \<longleftrightarrow> js_get RECIPE_DB d = Builtin
            \<or> js_get RECIPE_DB d = Undefined \<and> api d = Ingredients []"
  proof (cases "map_of RECIPE_DB d")
    case None
    then show ?thesis
      by (simp add: resolveIngredients_def js_get_def fetch_empty_iff)
  next
    case (Some r)
    with recipes_nonempty [OF Some] show ?thesis
      by (simp add: resolveIngredients_def js_get_def)
  qed
qed

theorem recipe_resolution_witness:
  "fetch_try (\<lambda>_. SearchError) ''mystery stew'' = Inl RequestFailed
   \<and> fetchIngredientsFromAPI (\<lambda>_. SearchError) ''mystery stew''
       = estimateDishIngredients ''mystery stew''
   \<and> resolveIngredients (\<lambda>_. SearchError) ''mystery stew''
       = nums [(''vegetables'', 150), (''onions'', 40), (''tomatoes'', 50), (''oil'', 10),
               (''spices'', 5)]"
proof -
  have a: "fetch_try (\<lambda>_. SearchError) ''mystery stew'' = Inl RequestFailed"
    by (simp add: fetch_try_def)
  have b: "estimateDishIngredients ''mystery stew''
      = nums [(''vegetables'', 150), (''onions'', 40), (''tomatoes'', 50), (''oil'', 10),
               (''spices'', 5)]"
    by code_simp
  have c: "js_get RECIPE_DB ''mystery stew'' = Undefined" by code_simp
  have f: "fetchIngredientsFromAPI (\<lambda>_. SearchError) ''mystery stew''
       = estimateDishIngredients ''mystery stew''"
    by (rule recipe_resolution [of "\<lambda>_. SearchError" "''mystery stew''" RequestFailed,
          THEN conjunct1, rule_format, OF a])
  have "resolveIngredients (\<lambda>_. SearchError) ''mystery stew''
      = fetchIngredientsFromAPI (\<lambda>_. SearchError) ''mystery stew''"
    by (simp add: resolveIngredients_def c)
  with a b f show ?thesis by simp
qed

subsection \<open>The keys of a resolved recipe are never inherited names\<close>

lemma own_keys_obj_set:
  "own_keys obj \<Longrightarrow> k \<notin> set object_prototype_keys \<Longrightarrow> own_keys (obj_set obj k v)"
  by (induction obj) (auto simp: own_keys_def)

lemma own_keys_if: "own_keys a \<Longrightarrow> own_keys b \<Longrightarrow> own_keys (if c then a else b)"
  by simp

lemma own_keys_estimate: "own_keys (estimateDishIngredients dishName)"
  unfolding estimateDishIngredients_def Let_def
  by (intro own_keys_if own_keys_obj_set)
     (simp_all add: own_keys_def nums_def object_prototype_keys_def)

lemma own_keys_recipes: "list_all (\<lambda>(d, r). own_keys r) RECIPE_DB"
  unfolding own_keys_def by code_simp

lemma normalization_values_own:
  "list_all (\<lambda>(k, v). v \<noteq> [] \<and> v \<notin> set object_prototype_keys) INGREDIENT_NORMALIZATION"
  by code_simp

lemma builtin_to_string_own: "builtin_to_string k \<notin> set object_prototype_keys"
  by (simp add: builtin_to_string_def object_prototype_keys_def)

lemma normalize_own: "normalize name \<notin> set object_prototype_keys"
proof (cases "map_of INGREDIENT_NORMALIZATION name")
  case None
  then show ?thesis
    by (simp add: normalize_def js_get_def builtin_to_string_own)
next
  case (Some v)
  from map_of_SomeD [OF Some] normalization_values_own
  have "v \<noteq> [] \<and> v \<notin> set object_prototype_keys"
    by (auto simp: list_all_iff)
  with Some show ?thesis
    by (simp add: normalize_def js_get_def)
qed

lemma own_keys_collect:
  "own_keys acc \<Longrightarrow> collect_ingredients acc items = Inr r \<Longrightarrow> own_keys r"
  by (induction acc items rule: collect_ingredients.induct)
     (simp_all add: own_keys_obj_set normalize_own)

lemma own_keys_fetch: "own_keys (fetchIngredientsFromAPI api d)"
proof (cases "fetch_try api d")
  case (Inl e)
  then show ?thesis by (simp add: fetchIngredientsFromAPI_def own_keys_estimate)
next
  case (Inr r)
  have "own_keys r"
  proof (cases "api d")
    case (Ingredients items)
    with Inr have "collect_ingredients [] items = Inr r" by (simp add: fetch_try_def)
    moreover have "own_keys ([] :: (string \<times> jsnum) list)" by (simp add: own_keys_def)
    ultimately show ?thesis by (rule own_keys_collect [rotated])
  qed (use Inr in \<open>auto simp: fetch_try_def own_keys_estimate\<close>)
  with Inr show ?thesis by (simp add: fetchIngredientsFromAPI_def)
qed

lemma resolved_keys_own: "own_keys (resolveIngredients api d)"
proof (cases "map_of RECIPE_DB d")
  case None
  then show ?thesis
    by (simp add: resolveIngredients_def js_get_def own_keys_fetch) (simp add: own_keys_def)
next
  case (Some r)
  from map_of_SomeD [OF Some] own_keys_recipes have "own_keys r"
    by (auto simp: list_all_iff)
  with Some show ?thesis by (simp add: resolveIngredients_def js_get_def)
qed

subsection \<open>The category classifier\<close>

lemma category_factor_pos: "0 < INGREDIENT_CATEGORY_FALLBACK c"
  by (cases c) simp_all

lemma estimate_is_first_match:
  "estimateEmissionCategory i = INGREDIENT_CATEGORY_FALLBACK (classify i)"
  by (simp add: estimateEmissionCategory_def classify_def category_rules_def Let_def)

lemma first_match_none:
  "\<not> list_ex (\<lambda>(keywords, c). list_ex (str_includes name) keywords) rules
     \<Longrightarrow> first_match rules name = Vegetables"
  by (induction rules) auto

text \<open>
  C6. \<^verbatim>\<open>estimateEmissionCategory\<close> is the first-match classifier over the ordered keyword
  sets: for every name it returns the fallback factor of the first category one of
  whose keywords the lower-cased name contains, and the factor of vegetables when none
  does. A name that contains "ghee" and no keyword of the two sets checked before dairy
  (meat, seafood) gets the dairy factor 10.0, although "ghee" is also a keyword of oil.
  The result is a number and positive. When the emission factor table has no entry
  for the name and the read yields \<^verbatim>\<open>undefined\<close>, this factor is the resolved emission
  factor.
\<close>

theorem category_resolution:
  "estimateEmissionCategory i = INGREDIENT_CATEGORY_FALLBACK (classify i)
   \<and> (js_get FOOD_EMISSIONS_DB i = Undefined
        \<longrightarrow> emissionFactorOf i = Val (Num (INGREDIENT_CATEGORY_FALLBACK (classify i))))
   \<and> (str_includes (toLowerCase i) ''ghee''
        \<and> \<not> list_ex (str_includes (toLowerCase i))
              [''meat'', ''beef'', ''lamb'', ''pork'', ''veal'',
               ''fish'', ''prawn'', ''shrimp'', ''salmon'', ''seafood'']
        \<longrightarrow> classify i = Dairy \<and> estimateEmissionCategory i = 10.0)
   \<and> (\<not> list_ex (\<lambda>(keywords, c). list_ex (str_includes (toLowerCase i)) keywords)
            category_rules
        \<longrightarrow> classify i = Vegetables \<and> estimateEmissionCategory i = 1.0)
   \<and> 0 < estimateEmissionCategory i"
proof (intro conjI impI)
  show e: "estimateEmissionCategory i = INGREDIENT_CATEGORY_FALLBACK (classify i)"
    by (rule estimate_is_first_match)
  show "0 < estimateEmissionCategory i"
    by (simp only: e category_factor_pos)
next
  assume "js_get FOOD_EMISSIONS_DB i = Undefined"
  then show "emissionFactorOf i = Val (Num (INGREDIENT_CATEGORY_FALLBACK (classify i)))"
    by (simp add: emissionFactorOf_def js_or_def estimate_is_first_match)
next
  assume h: "str_includes (toLowerCase i) ''ghee''
        \<and> \<not> list_ex (str_includes (toLowerCase i))
              [''meat'', ''beef'', ''lamb'', ''pork'', ''veal'',
               ''fish'', ''prawn'', ''shrimp'', ''salmon'', ''seafood'']"
  then show d: "classify i = Dairy"
    by (simp add: classify_def category_rules_def)
  show "estimateEmissionCategory i = 10.0"
    by (simp add: estimate_is_first_match d)
next
  assume h: "\<not> list_ex (\<lambda>(keywords, c). list_ex (str_includes (toLowerCase i)) keywords)
            category_rules"
  then show v: "classify i = Vegetables"
    unfolding classify_def by (rule first_match_none)
  show "estimateEmissionCategory i = 1.0"
    by (simp add: estimate_is_first_match v)
qed

theorem category_resolution_witness:
  "js_get FOOD_EMISSIONS_DB ''desi ghee'' = Undefined
   \<and> emissionFactorOf ''desi ghee'' = Val (Num 10.0)
   \<and> str_includes (toLowerCase ''desi ghee'') ''ghee''
   \<and> \<not> list_ex (str_includes (toLowerCase ''desi ghee''))
              [''meat'', ''beef'', ''lamb'', ''pork'', ''veal'',
               ''fish'', ''prawn'', ''shrimp'', ''salmon'', ''seafood'']
   \<and> classify ''desi ghee'' = Dairy \<and> estimateEmissionCategory ''desi ghee'' = 10.0
   \<and> \<not> list_ex (\<lambda>(keywords, c). list_ex (str_includes (toLowerCase ''okra'')) keywords)
          category_rules
   \<and> classify ''okra'' = Vegetables \<and> estimateEmissionCategory ''okra'' = 1.0"
proof -
  have a: "js_get FOOD_EMISSIONS_DB ''desi ghee'' = Undefined" by code_simp
  have b: "str_includes (toLowerCase ''desi ghee'') ''ghee''
   \<and> \<not> list_ex (str_includes (toLowerCase ''desi ghee''))
              [''meat'', ''beef'', ''lamb'', ''pork'', ''veal'',
               ''fish'', ''prawn'', ''shrimp'', ''salmon'', ''seafood'']" by code_simp
  have c: "INGREDIENT_CATEGORY_FALLBACK Dairy = 10.0" by simp
  have o: "\<not> list_ex (\<lambda>(keywords, c). list_ex (str_includes (toLowerCase ''okra'')) keywords)
          category_rules"
    by code_simp
  note t = category_resolution [of "''desi ghee''"]
  note u = category_resolution [of "''okra''"]
  from t a b have d: "classify ''desi ghee'' = Dairy" by fast
  from t a have "emissionFactorOf ''desi ghee''
      = Val (Num (INGREDIENT_CATEGORY_FALLBACK (classify ''desi ghee'')))" by fast
  then have e: "emissionFactorOf ''desi ghee'' = Val (Num 10.0)" by (simp only: d c)
  from u o have v: "classify ''okra'' = Vegetables \<and> estimateEmissionCategory ''okra'' = 1.0"
    by fast
  from t a b e o v show ?thesis by fast
qed

subsection \<open>Travel distance\<close>

lemma distance_travel_result: "distance (travel_result km t) = Some km"
  by (simp add: travel_result_def)

text \<open>
  C4. \<^verbatim>\<open>getTravelDistanceKm\<close> always returns a result, and its distance is 5 km in each
  degraded case: the origin address is missing or empty or the destination is missing;
  the geocoder fails or finds nothing; the origin is geocoded and the router fails.
\<close>

theorem travel_fallback_distance:
  "(originAddress = None \<or> originAddress = Some [] \<or> destCoords = None
      \<longrightarrow> distance (getTravelDistanceKm geocoder router originAddress destCoords tt)
            = Some (Num 5))
   \<and> (geocoder address = GeocodeError \<or> geocoder address = GeocodeFeatures []
      \<longrightarrow> distance (getTravelDistanceKm geocoder router (Some address) (Some dest) tt)
            = Some (Num 5))
   \<and> (getCoordinatesFromAddress geocoder address = Some origin
        \<and> router origin dest ''driving-car'' = RouteError
        \<and> router origin dest ''cycling-regular'' = RouteError
      \<longrightarrow> distance (getTravelDistanceKm geocoder router (Some address) (Some dest) tt)
            = Some (Num 5))"
  by (auto simp: getTravelDistanceKm_def getCoordinatesFromAddress_def Let_def
           distance_travel_result
           split: option.splits geocode_response.splits list.splits route_response.splits)

theorem travel_fallback_distance_witness:
  "distance (getTravelDistanceKm (\<lambda>_. GeocodeFeatures [(77, 28)]) (\<lambda>_ _ _. RouteError)
       None (Some \<lparr>lat = 28, lng = 77\<rparr>) None) = Some (Num 5)
   \<and> (\<lambda>_. GeocodeError) ''12 MG Road'' = GeocodeError
   \<and> distance (getTravelDistanceKm (\<lambda>_. GeocodeError) (\<lambda>_ _ _. RouteMeters (Num 7500))
       (Some ''12 MG Road'') (Some \<lparr>lat = 28, lng = 77\<rparr>) (Some ''car'')) = Some (Num 5)
   \<and> getCoordinatesFromAddress (\<lambda>_. GeocodeFeatures [(77, 28)]) ''12 MG Road''
        = Some \<lparr>lat = 28, lng = 77\<rparr>
   \<and> distance (getTravelDistanceKm (\<lambda>_. GeocodeFeatures [(77, 28)]) (\<lambda>_ _ _. RouteError)
       (Some ''12 MG Road'') (Some \<lparr>lat = 28.6, lng = 77.2\<rparr>) (Some ''car'')) = Some (Num 5)"
proof -
  have g: "getCoordinatesFromAddress (\<lambda>_. GeocodeFeatures [(77, 28)]) ''12 MG Road''
        = Some \<lparr>lat = 28, lng = 77\<rparr>"
    by code_simp
  note t1 = travel_fallback_distance [of None "Some \<lparr>lat = 28, lng = 77\<rparr>"
      "\<lambda>_. GeocodeFeatures [(77, 28)]" "\<lambda>_ _ _. RouteError" None]
  note t2 = travel_fallback_distance [where geocoder = "\<lambda>_. GeocodeError"
      and address = "''12 MG Road''" and router = "\<lambda>_ _ _. RouteMeters (Num 7500)"
      and dest = "\<lparr>lat = 28, lng = 77\<rparr>" and tt = "Some ''car''"]
  note t3 = travel_fallback_distance [where geocoder = "\<lambda>_. GeocodeFeatures [(77, 28)]"
      and address = "''12 MG Road''" and router = "\<lambda>_ _ _. RouteError"
      and origin = "\<lparr>lat = 28, lng = 77\<rparr>"
      and dest = "\<lparr>lat = 28.6, lng = 77.2\<rparr>" and tt = "Some ''car''"]
  from t1 have a: "distance (getTravelDistanceKm (\<lambda>_. GeocodeFeatures [(77, 28)])
       (\<lambda>_ _ _. RouteError) None (Some \<lparr>lat = 28, lng = 77\<rparr>) None) = Some (Num 5)"
    by simp
  from t2 have b: "distance (getTravelDistanceKm (\<lambda>_. GeocodeError)
       (\<lambda>_ _ _. RouteMeters (Num 7500))
       (Some ''12 MG Road'') (Some \<lparr>lat = 28, lng = 77\<rparr>) (Some ''car'')) = Some (Num 5)"
    by simp
  from t3 g have c: "distance (getTravelDistanceKm (\<lambda>_. GeocodeFeatures [(77, 28)])
       (\<lambda>_ _ _. RouteError)
       (Some ''12 MG Road'') (Some \<lparr>lat = 28.6, lng = 77.2\<rparr>) (Some ''car'')) = Some (Num 5)"
    by simp
  from a b c g show ?thesis by simp
qed

text \<open>Every key of the travel table but \<^verbatim>\<open>"walking"\<close> keeps its own factor.\<close>

lemma other_transport_factors:
  "list_all (\<lambda>(k, v). k = ''walking'' \<or> emissionFactor (travel_result (Num 5) k) = Val v)
     TRAVEL_EMISSIONS"
  by code_simp

text \<open>
  C5. The claim fails on the code. \<^verbatim>\<open>"walking"\<close> is a key of the travel table, with the
  factor 0.0; the factor being falsy, \<^verbatim>\<open>||\<close> replaces it by the factor of the default
  transport type, and every result for \<^verbatim>\<open>"walking"\<close> carries 0.115.
\<close>

theorem walking_factor_replaced:
  "js_get TRAVEL_EMISSIONS ''walking'' = Val (Num 0.0)
   \<and> js_get TRAVEL_EMISSIONS DEFAULT_TRANSPORT = Val (Num 0.115)
   \<and> emissionFactor (getTravelDistanceKm geocoder router originAddress destCoords
        (Some ''walking'')) = Val (Num 0.115)"
proof -
  have w: "js_get TRAVEL_EMISSIONS ''walking'' = Val (Num 0.0)"
    and m: "js_get TRAVEL_EMISSIONS DEFAULT_TRANSPORT = Val (Num 0.115)"
    by code_simp+
  have "emissionFactor (travel_result km ''walking'') = Val (Num 0.115)" for km
    by (simp add: travel_result_def w m js_or_def)
  then show ?thesis
    using w m
    by (simp add: getTravelDistanceKm_def Let_def
           split: option.splits route_response.splits)
qed

subsection \<open>The travel emission of a bare distance\<close>

lemma travel_number_values:
  "fst (travel_early (TNumber (Num 10))) = Num 1.15"
  "fst (travel_main (TNumber (Num 10))) = Num 1.05"
  by code_simp+

lemma toFixed_travel_values:
  "toFixed 2 (Num 1.15) = ''1.15''"
  "toFixed 2 (Num 1.05) = ''1.05''"
  by code_simp+

text \<open>
  C9. The claim fails on the code. For the bare distance 10 the early return (no dish
  string, or an empty one) multiplies by the table factor of the default transport
  type, 0.115, and reports \<^verbatim>\<open>"1.15"\<close>; the main path (any non-empty dish string)
  multiplies by the legacy constant 0.105 and reports \<^verbatim>\<open>"1.05"\<close>.
\<close>

theorem travel_factor_depends_on_dish_string:
  "travel (calculateFoodEmission api None (TNumber (Num 10)) pt) = ''1.15''
   \<and> travel (calculateFoodEmission api (Some []) (TNumber (Num 10)) pt) = ''1.15''
   \<and> travel (calculateFoodEmission api (Some (c # s)) (TNumber (Num 10)) pt) = ''1.05''"
  by (simp only: travel_early_field travel_main_field travel_number_values
      toFixed_travel_values simp_thms)

subsection \<open>The packaging model\<close>

text \<open>
  C8, the claim as stated fails: for three dishes and a packaging type the table does
  not have, the aggregator charges the legacy 0.2 per dish, 0.6, and not the large
  factor of the default type with the overhead, 1.25.
\<close>

theorem unknown_type_legacy_counterexample:
  "packagingEmission 3 ''cardboard'' = Num 0.6
   \<and> specified_packaging 3 ''cardboard'' (aggregator_size 3) = Num 1.25
   \<and> packagingEmission 3 ''cardboard''
       \<noteq> specified_packaging 3 ''cardboard'' (aggregator_size 3)"
  by code_simp

lemma map_of_packaging:
  "map_of PACKAGING_EMISSIONS t = Some sizes \<Longrightarrow>
     sizes = nums [(''small'', 0.1), (''medium'', 0.2), (''large'', 0.4)]
     \<or> sizes = nums [(''small'', 0.05), (''medium'', 0.1), (''large'', 0.2)]
     \<or> sizes = nums [(''small'', 0.15), (''medium'', 0.3), (''large'', 0.5)]
     \<or> sizes = nums [(''small'', 0.15), (''medium'', 0.25), (''large'', 0.45)]
     \<or> sizes = nums [(''small'', 0.3), (''medium'', 0.5), (''large'', 0.8)]"
  by (auto simp: PACKAGING_EMISSIONS_def split: if_splits)

lemma sizes_positive:
  assumes "map_of PACKAGING_EMISSIONS t = Some sizes" and "map_of sizes s = Some v"
  shows "js_gt0 v"
  using map_of_packaging [OF assms(1)] assms(2)
  by (elim disjE) (auto simp: nums_def split: if_splits)

lemma sizes_medium:
  assumes "map_of PACKAGING_EMISSIONS t = Some sizes"
  shows "\<exists>m. map_of sizes DEFAULT_PACKAGING_size = Some m"
  using map_of_packaging [OF assms]
  by (elim disjE) (simp_all add: nums_def DEFAULT_PACKAGING_size_def)

lemma default_type_in_table:
  "\<exists>sizes. map_of PACKAGING_EMISSIONS DEFAULT_PACKAGING_type = Some sizes"
  by (simp add: PACKAGING_EMISSIONS_def DEFAULT_PACKAGING_type_def)

lemma table_some:
  "t \<in> set (map fst PACKAGING_EMISSIONS) \<Longrightarrow> \<exists>sizes. map_of PACKAGING_EMISSIONS t = Some sizes"
  by (cases "map_of PACKAGING_EMISSIONS t") (simp_all add: map_of_eq_None_iff)

lemma table_none:
  "t \<notin> set (map fst PACKAGING_EMISSIONS) \<Longrightarrow> map_of PACKAGING_EMISSIONS t = None"
  by (simp add: map_of_eq_None_iff)

lemma resolved_type_in_table:
  "\<exists>sizes. map_of PACKAGING_EMISSIONS (resolved_type t) = Some sizes"
proof (cases "t \<in> set (map fst PACKAGING_EMISSIONS)")
  case True
  then show ?thesis using table_some [OF True] by (simp only: resolved_type_def if_True)
next
  case False
  then show ?thesis using default_type_in_table by (simp only: resolved_type_def if_False)
qed

lemma table_keys_own:
  "t \<in> set (map fst PACKAGING_EMISSIONS) \<Longrightarrow> t \<notin> set object_prototype_keys"
  unfolding packaging_keys by (elim insertE emptyE) (simp_all add: object_prototype_keys_def)

lemma source_type_is_resolved_type:
  assumes "t \<notin> set object_prototype_keys"
  shows "(if truthy_obj (js_get PACKAGING_EMISSIONS t) then t else DEFAULT_PACKAGING_type)
           = resolved_type t"
proof (cases "t \<in> set (map fst PACKAGING_EMISSIONS)")
  case True
  then obtain sizes where "map_of PACKAGING_EMISSIONS t = Some sizes"
    using table_some by blast
  then have "truthy_obj (js_get PACKAGING_EMISSIONS t)" by (simp add: js_get_Val)
  with True show ?thesis by (simp only: resolved_type_def if_True)
next
  case False
  then have "map_of PACKAGING_EMISSIONS t = None" by (rule table_none)
  then have "\<not> truthy_obj (js_get PACKAGING_EMISSIONS t)"
    using assms by (simp add: js_get_own)
  with False show ?thesis by (simp only: resolved_type_def if_False)
qed

lemma unit_factor_cases:
  assumes sz: "map_of PACKAGING_EMISSIONS rt = Some sizes"
  shows "map_of sizes s = Some v \<Longrightarrow> unit_factor rt (resolved_size rt s) = v"
    and "map_of sizes s = None \<Longrightarrow> map_of sizes DEFAULT_PACKAGING_size = Some m
           \<Longrightarrow> unit_factor rt (resolved_size rt s) = m"
proof -
  assume v: "map_of sizes s = Some v"
  from keys_some [OF v] have "resolved_size rt s = s"
    by (simp only: resolved_size_def sz option.case if_True)
  then show "unit_factor rt (resolved_size rt s) = v"
    by (simp only: unit_factor_def sz v option.case)
next
  assume n: "map_of sizes s = None" and m: "map_of sizes DEFAULT_PACKAGING_size = Some m"
  from keys_none [OF n] have "resolved_size rt s = DEFAULT_PACKAGING_size"
    by (simp only: resolved_size_def sz option.case if_False)
  then show "unit_factor rt (resolved_size rt s) = m"
    by (simp only: unit_factor_def sz m option.case)
qed

lemma calculatePackagingEmissions_specified:
  assumes t: "t \<notin> set object_prototype_keys" and s: "s \<notin> set object_prototype_keys"
  shows "calculatePackagingEmissions n t s = specified_packaging n t s"
proof -
  obtain sizes where sz: "map_of PACKAGING_EMISSIONS (resolved_type t) = Some sizes"
    using resolved_type_in_table by blast
  obtain m where m: "map_of sizes DEFAULT_PACKAGING_size = Some m"
    using sizes_medium [OF sz] by blast
  have g: "js_get PACKAGING_EMISSIONS (resolved_type t) = Val sizes"
    using sz by (rule js_get_Val)
  show ?thesis
  proof (cases "map_of sizes s")
    case None
    have "size_factor (Val sizes) s = Undefined" using None s by (simp add: js_get_own)
    moreover have "size_factor (Val sizes) DEFAULT_PACKAGING_size = Val m"
      using m by (simp add: js_get_Val)
    ultimately show ?thesis
      by (simp add: calculatePackagingEmissions_def specified_packaging_def Let_def
          source_type_is_resolved_type [OF t] g unit_factor_cases(2) [OF sz None m])
  next
    case (Some v)
    have f: "size_factor (Val sizes) s = Val v" using Some by (simp add: js_get_Val)
    have "truthy (Val v)" using js_gt0_truthy [OF sizes_positive [OF sz Some]] by simp
    with f show ?thesis
      by (simp add: calculatePackagingEmissions_def specified_packaging_def Let_def
          source_type_is_resolved_type [OF t] g unit_factor_cases(1) [OF sz Some])
  qed
qed

lemma unit_factor_positive:
  "js_gt0 (unit_factor (resolved_type t) (resolved_size (resolved_type t) s))"
proof -
  obtain sizes where sz: "map_of PACKAGING_EMISSIONS (resolved_type t) = Some sizes"
    using resolved_type_in_table by blast
  obtain m where m: "map_of sizes DEFAULT_PACKAGING_size = Some m"
    using sizes_medium [OF sz] by blast
  show ?thesis
  proof (cases "map_of sizes s")
    case None
    show ?thesis
      using sizes_positive [OF sz m] by (simp only: unit_factor_cases(2) [OF sz None m])
  next
    case (Some v)
    show ?thesis
      using sizes_positive [OF sz Some] by (simp only: unit_factor_cases(1) [OF sz Some])
  qed
qed

lemma aggregator_size_own: "aggregator_size n \<notin> set object_prototype_keys"
  by (simp add: aggregator_size_def object_prototype_keys_def)

lemma packagingEmission_known:
  assumes "t \<in> set (map fst PACKAGING_EMISSIONS)"
  shows "packagingEmission n t = specified_packaging n t (aggregator_size n)"
proof -
  have own: "t \<notin> set object_prototype_keys" using assms by (rule table_keys_own)
  have ne: "t \<noteq> []" using assms unfolding packaging_keys by auto
  obtain sizes where "map_of PACKAGING_EMISSIONS t = Some sizes"
    using table_some [OF assms] by blast
  then have "truthy_obj (js_get PACKAGING_EMISSIONS t)" by (simp add: js_get_Val)
  with ne show ?thesis
    by (simp add: packagingEmission_def aggregator_size_def [symmetric]
        calculatePackagingEmissions_specified [OF own aggregator_size_own])
qed

lemma packagingEmission_unknown:
  assumes "t \<notin> set (map fst PACKAGING_EMISSIONS)" and "t \<notin> set object_prototype_keys"
  shows "packagingEmission n t = Num (PACKAGING_EMISSION_PER_DISH * of_nat n)"
proof -
  have "map_of PACKAGING_EMISSIONS t = None" using assms(1) by (rule table_none)
  then have "\<not> truthy_obj (js_get PACKAGING_EMISSIONS t)"
    using assms(2) by (simp add: js_get_own)
  then show ?thesis
    by (simp add: packagingEmission_def)
qed

lemma packaging_three_default:
  "packagingEmission 3 DEFAULT_PACKAGING_type = Num (0.4 * 3 + 0.05)"
  by code_simp

text \<open>
  C8, amended. For every dish count, type and size, \<^verbatim>\<open>calculatePackagingEmissions\<close>
  returns the unit factor of the resolved type and size times the dish count, plus the
  fixed 0.05; the type is the given one if the table has it and the default type
  otherwise, likewise the size, and the unit factor is a positive number. The
  aggregator calls it, with the size large exactly above two dishes and medium
  otherwise, when the packaging type is in the table; so three dishes of the default
  type cost 3 times the large factor plus 0.05. For a type that is not in the table the
  aggregator charges the legacy 0.2 per dish and no overhead. (Type and size range
  over the names that are not inherited property names of an object.)
\<close>

theorem packaging_model:
  "(t \<notin> set object_prototype_keys \<and> s \<notin> set object_prototype_keys
      \<longrightarrow> calculatePackagingEmissions n t s = specified_packaging n t s)
   \<and> js_gt0 (unit_factor (resolved_type t) (resolved_size (resolved_type t) s))
   \<and> (t \<in> set (map fst PACKAGING_EMISSIONS)
      \<longrightarrow> packagingEmission n t = specified_packaging n t (aggregator_size n))
   \<and> (t \<notin> set (map fst PACKAGING_EMISSIONS) \<and> t \<notin> set object_prototype_keys
      \<longrightarrow> packagingEmission n t = Num (PACKAGING_EMISSION_PER_DISH * of_nat n))
   \<and> packagingEmission 3 DEFAULT_PACKAGING_type = Num (0.4 * 3 + 0.05)"
proof (intro conjI impI)
  assume "t \<notin> set object_prototype_keys \<and> s \<notin> set object_prototype_keys"
  then have "t \<notin> set object_prototype_keys" and "s \<notin> set object_prototype_keys"
    by (rule conjunct1, rule conjunct2)
  then show "calculatePackagingEmissions n t s = specified_packaging n t s"
    by (rule calculatePackagingEmissions_specified)
next
  show "js_gt0 (unit_factor (resolved_type t) (resolved_size (resolved_type t) s))"
    by (rule unit_factor_positive)
next
  assume "t \<in> set (map fst PACKAGING_EMISSIONS)"
  then show "packagingEmission n t = specified_packaging n t (aggregator_size n)"
    by (rule packagingEmission_known)
next
  assume "t \<notin> set (map fst PACKAGING_EMISSIONS) \<and> t \<notin> set object_prototype_keys"
  then have "t \<notin> set (map fst PACKAGING_EMISSIONS)" and "t \<notin> set object_prototype_keys"
    by (rule conjunct1, rule conjunct2)
  then show "packagingEmission n t = Num (PACKAGING_EMISSION_PER_DISH * of_nat n)"
    by (rule packagingEmission_unknown)
next
  show "packagingEmission 3 DEFAULT_PACKAGING_type = Num (0.4 * 3 + 0.05)"
    by (rule packaging_three_default)
qed

theorem packaging_model_witness:
  "''glass'' \<notin> set object_prototype_keys \<and> ''huge'' \<notin> set object_prototype_keys
   \<and> calculatePackagingEmissions 2 ''glass'' ''huge'' = specified_packaging 2 ''glass'' ''huge''
   \<and> specified_packaging 2 ''glass'' ''huge'' = Num 1.05
   \<and> ''paper'' \<in> set (map fst PACKAGING_EMISSIONS)
   \<and> packagingEmission 3 ''paper'' = specified_packaging 3 ''paper'' (aggregator_size 3)
   \<and> specified_packaging 3 ''paper'' (aggregator_size 3) = Num 0.65
   \<and> ''cardboard'' \<notin> set (map fst PACKAGING_EMISSIONS)
   \<and> packagingEmission 3 ''cardboard'' = Num (PACKAGING_EMISSION_PER_DISH * of_nat 3)"
proof -
  have a: "''glass'' \<notin> set object_prototype_keys \<and> ''huge'' \<notin> set object_prototype_keys"
    by code_simp
  have b: "''paper'' \<in> set (map fst PACKAGING_EMISSIONS)" by code_simp
  have c: "''cardboard'' \<notin> set (map fst PACKAGING_EMISSIONS)
      \<and> ''cardboard'' \<notin> set object_prototype_keys"
    by code_simp
  have v: "specified_packaging 2 ''glass'' ''huge'' = Num 1.05"
    "specified_packaging 3 ''paper'' (aggregator_size 3) = Num 0.65"
    by code_simp+
  note t1 = packaging_model [of "''glass''" "''huge''" 2, THEN conjunct1, rule_format, OF a]
  note t2 = packaging_model [of "''paper''" "''huge''" 3, THEN conjunct2, THEN conjunct2,
      THEN conjunct1, rule_format, OF b]
  note t3 = packaging_model [of "''cardboard''" "''huge''" 3, THEN conjunct2, THEN conjunct2,
      THEN conjunct2, THEN conjunct1, rule_format, OF c]
  from a b c v t1 t2 t3 show ?thesis by (simp only: simp_thms)
qed

end
